theory Spec2Isabelle
  imports Complex_Main
begin

section \<open>The booking wizard of BookingPage.tsx\<close>

text \<open>
  The development follows \<^verbatim>\<open>src/pages/BookingPage.tsx\<close>: the component
  \<^verbatim>\<open>BookingForm\<close> with its React state, its derived price values, its three
  react-query mutations and its click handlers, and the choice of the rate card in
  \<^verbatim>\<open>BookingPage\<close>.

  JavaScript numbers: a value that can be \<^verbatim>\<open>NaN\<close> is an option, with \<open>None\<close> for
  \<^verbatim>\<open>NaN\<close>. Counts are integers, money is rational: the arithmetic of the finite
  doubles is taken exact, and \<^verbatim>\<open>0.12\<close> is the fraction \<open>12/100\<close>. On whole
  amounts the rounded service fee of the doubles is the same, since 12 percent of a whole
  number is at least \<open>1/50\<close> away from a tie.
\<close>

subsection \<open>Data\<close>

record PricingRule =
  base_price_per_night :: rat
  cleaning_fee :: rat
  pet_fee :: rat
  security_deposit :: rat
  min_stay_nights :: int
  check_in_time :: string
  check_out_time :: string

text \<open>Of the interface \<^verbatim>\<open>Property\<close>, the fields that the booking form reads in its
  logic, and the joined \<^verbatim>\<open>property_pricing_rules\<close> of the fetched row (\<open>None\<close>
  when the row has no such member).\<close>

record Property =
  property_id :: string
  title :: string
  berths :: int
  pet_friendly :: bool
  property_pricing_rules :: "PricingRule list option"

text \<open>\<^verbatim>\<open>data.data\<close> of a successful \<^verbatim>\<open>create_booking\<close>: the code reads
  \<^verbatim>\<open>bookingData.booking.id\<close> only.\<close>

record BookingRecord =
  booking_id :: string
  booking_status :: string

text \<open>\<^verbatim>\<open>data.data\<close> of a successful \<^verbatim>\<open>create_payment_intent\<close>.\<close>

record PaymentIntentHandle =
  clientSecret :: string
  intentId :: string

text \<open>What the component receives from outside and never changes: its two props, the
  authenticated user (here the user's e-mail address; \<open>None\<close> when nobody is logged
  in), whether the hooks \<^verbatim>\<open>useStripe\<close> and \<^verbatim>\<open>useElements\<close> have delivered their
  objects, whether \<^verbatim>\<open>elements.getElement(CardElement)\<close> finds the card field, and the
  run-time library's \<^verbatim>\<open>new Date(str).getTime()\<close> in milliseconds (\<open>None\<close> for an
  invalid date, whose time value is \<^verbatim>\<open>NaN\<close>).\<close>

record env =
  property :: Property
  pricing :: PricingRule
  user :: "string option"
  stripe_ready :: bool
  card_element :: bool
  date_getTime :: "string \<Rightarrow> int option"

subsection \<open>The date-only form of the ECMAScript date-time strings\<close>

text \<open>An \<^verbatim>\<open><input type="date">\<close> delivers the empty string or \<^verbatim>\<open>YYYY-MM-DD\<close>, which
  \<^verbatim>\<open>new Date\<close> reads as midnight UTC of that day. \<open>iso_date_ms\<close> is
  \<^verbatim>\<open>getTime\<close> on these strings; every other string is taken as an invalid date here.
  The general theorems below do not use it: they hold for any \<open>date_getTime\<close>.\<close>

definition digit_val :: "char \<Rightarrow> int option" where
  "digit_val c = (let n = (of_char c :: nat) in
     if 48 \<le> n \<and> n \<le> 57 then Some (int n - 48) else None)"

fun digits_val :: "int \<Rightarrow> string \<Rightarrow> int option" where
  "digits_val acc [] = Some acc"
| "digits_val acc (c # cs) =
     (case digit_val c of None \<Rightarrow> None | Some d \<Rightarrow> digits_val (10 * acc + d) cs)"

definition leap_year :: "int \<Rightarrow> bool" where
  "leap_year y = (y mod 4 = 0 \<and> (y mod 100 \<noteq> 0 \<or> y mod 400 = 0))"

definition days_in_month :: "int \<Rightarrow> int \<Rightarrow> int" where
  "days_in_month y m =
     (if m = 2 then (if leap_year y then 29 else 28)
      else if m = 4 \<or> m = 6 \<or> m = 9 \<or> m = 11 then 30 else 31)"

text \<open>Days from 1970-01-01 to the civil date \<open>y-m-d\<close> of the proleptic Gregorian
  calendar.\<close>

definition days_from_civil :: "int \<Rightarrow> int \<Rightarrow> int \<Rightarrow> int" where
  "days_from_civil y m d =
     (let y' = (if m \<le> 2 then y - 1 else y);
          era = y' div 400;
          yoe = y' - era * 400;
          doy = (153 * (if m > 2 then m - 3 else m + 9) + 2) div 5 + d - 1;
          doe = yoe * 365 + yoe div 4 - yoe div 100 + doy
      in era * 146097 + doe - 719468)"

definition iso_date_ms :: "string \<Rightarrow> int option" where
  "iso_date_ms str =
     (if length str = 10 \<and> str ! 4 = CHR ''-'' \<and> str ! 7 = CHR ''-'' then
        (case (digits_val 0 (take 4 str), digits_val 0 (take 2 (drop 5 str)),
               digits_val 0 (drop 8 str)) of
           (Some y, Some m, Some d) \<Rightarrow>
             if 1 \<le> m \<and> m \<le> 12 \<and> 1 \<le> d \<and> d \<le> days_in_month y m
             then Some (days_from_civil y m d * 86400000) else None
         | _ \<Rightarrow> None)
      else None)"

subsection \<open>JavaScript helpers\<close>

text \<open>\<^verbatim>\<open>x || 0\<close> on a number: \<^verbatim>\<open>0\<close> is falsy.\<close>

definition or_zero :: "rat \<Rightarrow> rat" where
  "or_zero x = (if x = 0 then 0 else x)"

text \<open>\<^verbatim>\<open>error.message || fallback\<close>: the empty string is falsy.\<close>

definition msg_or :: "string \<Rightarrow> string \<Rightarrow> string" where
  "msg_or m fallback = (if m = [] then fallback else m)"

text \<open>\<^verbatim>\<open>Math.round\<close>: the nearest integer, a tie going up.\<close>

definition math_round :: "rat \<Rightarrow> int" where
  "math_round x = \<lfloor>x + 1 / 2\<rfloor>"

text \<open>Comparisons of numbers: every comparison with \<^verbatim>\<open>NaN\<close> is false.\<close>

fun num_less :: "int option \<Rightarrow> int option \<Rightarrow> bool" where
  "num_less (Some a) (Some b) = (a < b)"
| "num_less _ _ = False"

fun num_ge :: "int option \<Rightarrow> int option \<Rightarrow> bool" where
  "num_ge (Some a) (Some b) = (a \<ge> b)"
| "num_ge _ _ = False"

fun num_add :: "int option \<Rightarrow> int option \<Rightarrow> int option" where
  "num_add (Some a) (Some b) = Some (a + b)"
| "num_add _ _ = None"

text \<open>A template literal renders an integer in decimal.\<close>

fun show_nat :: "nat \<Rightarrow> string" where
  "show_nat n = (if n < 10 then [char_of (48 + n)] else show_nat (n div 10) @ [char_of (48 + n mod 10)])"

definition show_int :: "int \<Rightarrow> string" where
  "show_int i = (if i < 0 then CHR ''-'' # show_nat (nat (- i)) else show_nat (nat i))"

subsection \<open>The state of \<^verbatim>\<open>BookingForm\<close>\<close>

text \<open>The body of a \<^verbatim>\<open>create_booking\<close> request.\<close>

record booking_body =
  body_property_id :: string
  body_start_date :: string
  body_end_date :: string
  body_adults :: "int option"
  body_children :: "int option"
  body_infants :: int
  body_pets :: int
  body_special_requests :: string
  body_pricing :: PricingRule

text \<open>The remote calls: four actions of the function \<^verbatim>\<open>booking-management\<close> and the
  payment provider's \<^verbatim>\<open>confirmCardPayment\<close> (client secret, billing e-mail).\<close>

datatype remote_call =
    CheckAvailability string string string
  | CreateBooking booking_body
  | CreatePaymentIntent string "rat option" string
  | ConfirmCardPayment string "string option"
  | ConfirmPayment string string

datatype toast = ToastSuccess string | ToastError string

text \<open>The answer to an \<^verbatim>\<open>invoke\<close>: \<open>Failure m\<close> is an \<^verbatim>\<open>error\<close> or a
  \<^verbatim>\<open>data.error\<close> whose message is \<open>m\<close>, \<open>Success d\<close> carries \<^verbatim>\<open>data.data\<close>.\<close>

datatype 'a reply = Failure string | Success 'a

text \<open>The answer of \<^verbatim>\<open>stripe.confirmCardPayment\<close>: an error with its message, or a
  payment intent with its status and id.\<close>

datatype card_reply = StripeError string | StripeIntent string string

text \<open>\<^verbatim>\<open>handlePaymentSubmit\<close> is suspended at one of its three \<^verbatim>\<open>await\<close>s. The
  closure keeps the \<^verbatim>\<open>bookingData\<close> of the render in which the button was clicked.\<close>

datatype pay_task =
    AwaitIntent
  | AwaitCard "BookingRecord option"
  | AwaitConfirm

datatype event =
    ChangeStartDate string
  | ChangeEndDate string
  | ChangeAdults int
  | ChangeChildren int
  | ChangeInfants int
  | ChangePets int
  | ChangeSpecialRequests string
  | ClickCheckAvailability
  | ClickBackToDates
  | ClickContinue
  | ClickBackToDetails
  | ClickPay
  | AvailabilityReply "bool reply"
  | BookingReply "BookingRecord reply"
  | IntentReply "PaymentIntentHandle reply"
  | CardReply card_reply
  | ConfirmReply "unit reply"

text \<open>The eleven \<^verbatim>\<open>useState\<close> cells, \<^verbatim>\<open>isPending\<close> of the two mutations that the
  markup reads, the suspended payment handler, and what the component has done and
  seen so far: the remote calls it has issued, the toasts it has shown, the route it
  has navigated to (the component is gone then), and the events it has handled.\<close>

record flow =
  startDate :: string
  endDate :: string
  adults :: "int option"
  children :: "int option"
  infants :: int
  pets :: int
  specialRequests :: string
  currentStep :: nat
  bookingData :: "BookingRecord option"
  paymentIntent :: "PaymentIntentHandle option"
  isProcessing :: bool
  checkAvailabilityPending :: bool
  createBookingPending :: bool
  payment_task :: "pay_task option"
  calls :: "remote_call list"
  toasts :: "toast list"
  navigated :: "string option"
  history :: "event list"

text \<open>The initial state. The two dates and the two head counts come from the query
  string: \<^verbatim>\<open>searchParams.get(..) || ''\<close> and \<^verbatim>\<open>parseInt(..)\<close>, which is
  \<^verbatim>\<open>NaN\<close> on a string that does not start with a number.\<close>

definition init_flow :: "string \<Rightarrow> string \<Rightarrow> int option \<Rightarrow> int option \<Rightarrow> flow" where
  "init_flow sd ed ad ch =
     \<lparr> startDate = sd, endDate = ed, adults = ad, children = ch, infants = 0, pets = 0,
       specialRequests = [], currentStep = 1, bookingData = None, paymentIntent = None,
       isProcessing = False, checkAvailabilityPending = False,
       createBookingPending = False, payment_task = None, calls = [], toasts = [],
       navigated = None, history = [] \<rparr>"

subsection \<open>Calculate pricing (lines 84 to 91)\<close>

definition nights :: "env \<Rightarrow> flow \<Rightarrow> int option" where
  "nights e s =
     (if startDate s \<noteq> [] \<and> endDate s \<noteq> [] then
        (case (date_getTime e (endDate s), date_getTime e (startDate s)) of
           (Some te, Some ts) \<Rightarrow> Some \<lceil>rat_of_int (te - ts) / (1000 * 60 * 60 * 24)\<rceil>
         | _ \<Rightarrow> None)
      else Some 0)"

definition basePrice :: "env \<Rightarrow> flow \<Rightarrow> rat option" where
  "basePrice e s = map_option (\<lambda>n. base_price_per_night (pricing e) * rat_of_int n) (nights e s)"

definition cleaningFee :: "env \<Rightarrow> rat" where
  "cleaningFee e = or_zero (cleaning_fee (pricing e))"

definition petFee :: "env \<Rightarrow> flow \<Rightarrow> rat" where
  "petFee e s = (if pets s > 0 then or_zero (pet_fee (pricing e)) else 0)"

definition serviceFee :: "env \<Rightarrow> flow \<Rightarrow> rat option" where
  "serviceFee e s = map_option (\<lambda>b. rat_of_int (math_round (b * (12 / 100)))) (basePrice e s)"

definition totalPrice :: "env \<Rightarrow> flow \<Rightarrow> rat option" where
  "totalPrice e s =
     (case (basePrice e s, serviceFee e s) of
        (Some b, Some f) \<Rightarrow> Some (b + cleaningFee e + petFee e s + f)
      | _ \<Rightarrow> None)"

subsection \<open>Toasts and the three mutations\<close>

definition toast_error :: "string \<Rightarrow> flow \<Rightarrow> flow" where
  "toast_error m s = s\<lparr>toasts := toasts s @ [ToastError m]\<rparr>"

definition toast_success :: "string \<Rightarrow> flow \<Rightarrow> flow" where
  "toast_success m s = s\<lparr>toasts := toasts s @ [ToastSuccess m]\<rparr>"

definition invoke :: "remote_call \<Rightarrow> flow \<Rightarrow> flow" where
  "invoke c s = s\<lparr>calls := calls s @ [c]\<rparr>"

text \<open>\<^verbatim>\<open>checkAvailabilityMutation\<close>: \<^verbatim>\<open>mutate\<close> sends the request, and the answer
  runs \<^verbatim>\<open>onSuccess\<close> or \<^verbatim>\<open>onError\<close>.\<close>

definition checkAvailability_mutate :: "env \<Rightarrow> flow \<Rightarrow> flow" where
  "checkAvailability_mutate e s =
     (invoke (CheckAvailability (property_id (property e)) (startDate s) (endDate s)) s)
       \<lparr>checkAvailabilityPending := True\<rparr>"

fun checkAvailability_settled :: "bool reply \<Rightarrow> flow \<Rightarrow> flow" where
  "checkAvailability_settled (Success available) s =
     (if available
      then (toast_success ''Property is available for your dates!'' s)
             \<lparr>currentStep := 2, checkAvailabilityPending := False\<rparr>
      else (toast_error ''Property is not available for selected dates'' s)
             \<lparr>checkAvailabilityPending := False\<rparr>)"
| "checkAvailability_settled (Failure m) s =
     (toast_error (msg_or m ''Failed to check availability'') s)
       \<lparr>checkAvailabilityPending := False\<rparr>"

text \<open>\<^verbatim>\<open>createBookingMutation\<close>.\<close>

definition createBooking_mutate :: "env \<Rightarrow> flow \<Rightarrow> flow" where
  "createBooking_mutate e s =
     (invoke (CreateBooking
        \<lparr> body_property_id = property_id (property e), body_start_date = startDate s,
          body_end_date = endDate s, body_adults = adults s, body_children = children s,
          body_infants = infants s, body_pets = pets s,
          body_special_requests = specialRequests s, body_pricing = pricing e \<rparr>) s)
       \<lparr>createBookingPending := True\<rparr>"

fun createBooking_settled :: "BookingRecord reply \<Rightarrow> flow \<Rightarrow> flow" where
  "createBooking_settled (Success d) s =
     (toast_success ''Booking created! Proceed to payment.'' (s\<lparr>bookingData := Some d\<rparr>))
       \<lparr>currentStep := 3, createBookingPending := False\<rparr>"
| "createBooking_settled (Failure m) s =
     (toast_error (msg_or m ''Failed to create booking'') s)
       \<lparr>createBookingPending := False\<rparr>"

text \<open>Reading \<^verbatim>\<open>bookingData.booking\<close> while \<^verbatim>\<open>bookingData\<close> is \<^verbatim>\<open>null\<close> throws a
  TypeError; this is its message.\<close>

definition null_booking_message :: string where
  "null_booking_message = ''Cannot read properties of null (reading 'booking')''"

text \<open>\<^verbatim>\<open>createPaymentIntentMutation\<close>, called by \<^verbatim>\<open>mutateAsync\<close> inside
  \<^verbatim>\<open>handlePaymentSubmit\<close>. A failure shows the toast of \<^verbatim>\<open>onError\<close>, and the
  rejected promise then reaches the handler's \<^verbatim>\<open>catch\<close>, which shows its own; the
  \<^verbatim>\<open>finally\<close> block clears \<^verbatim>\<open>isProcessing\<close> in each case.\<close>

definition payment_failed :: "string \<Rightarrow> flow \<Rightarrow> flow" where
  "payment_failed m s =
     (toast_error (msg_or m ''Payment failed'') s)\<lparr>isProcessing := False, payment_task := None\<rparr>"

definition createPaymentIntent_rejected :: "string \<Rightarrow> flow \<Rightarrow> flow" where
  "createPaymentIntent_rejected m s =
     payment_failed m (toast_error (msg_or m ''Failed to create payment intent'') s)"

definition createPaymentIntent_mutate :: "env \<Rightarrow> flow \<Rightarrow> flow" where
  "createPaymentIntent_mutate e s =
     (case bookingData s of
        None \<Rightarrow> createPaymentIntent_rejected null_booking_message s
      | Some b \<Rightarrow>
          (invoke (CreatePaymentIntent (booking_id b) (totalPrice e s) ''gbp'') s)
            \<lparr>payment_task := Some AwaitIntent\<rparr>)"

fun createPaymentIntent_settled :: "PaymentIntentHandle reply \<Rightarrow> flow \<Rightarrow> flow" where
  "createPaymentIntent_settled (Success d) s =
     (toast_success ''Ready to process payment'' (s\<lparr>paymentIntent := Some d\<rparr>))
       \<lparr>isProcessing := False, payment_task := None\<rparr>"
| "createPaymentIntent_settled (Failure m) s = createPaymentIntent_rejected m s"

subsection \<open>The click handlers\<close>

definition handleDateSubmit :: "env \<Rightarrow> flow \<Rightarrow> flow" where
  "handleDateSubmit e s =
     (if startDate s = [] \<or> endDate s = [] then
        toast_error ''Please select check-in and check-out dates'' s
      else if num_ge (date_getTime e (startDate s)) (date_getTime e (endDate s)) then
        toast_error ''Check-out date must be after check-in date'' s
      else if num_less (nights e s) (Some (min_stay_nights (pricing e))) then
        toast_error (''Minimum stay is '' @ show_int (min_stay_nights (pricing e)) @ '' nights'') s
      else checkAvailability_mutate e s)"

definition handleBookingSubmit :: "env \<Rightarrow> flow \<Rightarrow> flow" where
  "handleBookingSubmit e s =
     (if user e = None then
        (toast_error ''Please log in to make a booking'' s)\<lparr>navigated := Some ''/auth''\<rparr>
      else if num_less (Some (berths (property e))) (num_add (adults s) (children s)) then
        toast_error (''Property sleeps maximum '' @ show_int (berths (property e)) @ '' guests'') s
      else createBooking_mutate e s)"

text \<open>\<^verbatim>\<open>handlePaymentSubmit\<close> up to its first \<^verbatim>\<open>await\<close>.\<close>

definition handlePaymentSubmit :: "env \<Rightarrow> flow \<Rightarrow> flow" where
  "handlePaymentSubmit e s =
     (if \<not> stripe_ready e then s
      else
        (case paymentIntent s of
           None \<Rightarrow> createPaymentIntent_mutate e (s\<lparr>isProcessing := True\<rparr>)
         | Some intent \<Rightarrow>
             if \<not> card_element e then payment_failed ''Card element not found'' (s\<lparr>isProcessing := True\<rparr>)
             else (invoke (ConfirmCardPayment (clientSecret intent) (user e)) (s\<lparr>isProcessing := True\<rparr>))
                    \<lparr>payment_task := Some (AwaitCard (bookingData s))\<rparr>))"

text \<open>The handler resumed with the answer of \<^verbatim>\<open>stripe.confirmCardPayment\<close> (lines
  231 to 250), \<open>captured\<close> being the \<^verbatim>\<open>bookingData\<close> of its closure. A payment
  intent whose status is not \<^verbatim>\<open>succeeded\<close> falls through to \<^verbatim>\<open>finally\<close>.\<close>

fun confirmCardPayment_settled :: "BookingRecord option \<Rightarrow> card_reply \<Rightarrow> flow \<Rightarrow> flow" where
  "confirmCardPayment_settled captured (StripeError m) s = payment_failed m s"
| "confirmCardPayment_settled captured (StripeIntent status pid) s =
     (if status = ''succeeded'' then
        (case captured of
           None \<Rightarrow> payment_failed null_booking_message s
         | Some b \<Rightarrow> (invoke (ConfirmPayment pid (booking_id b)) s)\<lparr>payment_task := Some AwaitConfirm\<rparr>)
      else s\<lparr>isProcessing := False, payment_task := None\<rparr>)"

text \<open>The handler resumed with the answer of \<^verbatim>\<open>confirm_payment\<close> (lines 245 to 255).\<close>

fun confirmPayment_settled :: "unit reply \<Rightarrow> flow \<Rightarrow> flow" where
  "confirmPayment_settled (Success u) s =
     (toast_success ''Payment successful! Booking confirmed!'' s)
       \<lparr>currentStep := 4, isProcessing := False, payment_task := None\<rparr>"
| "confirmPayment_settled (Failure m) s = payment_failed m s"

subsection \<open>The markup: which control exists and is enabled\<close>

text \<open>A control takes an event when the markup renders it (the block of its step) and
  does not disable it; the options of a \<^verbatim>\<open>select\<close> are the values it can deliver. An
  answer arrives for a request that is under way.\<close>

fun enabled :: "env \<Rightarrow> flow \<Rightarrow> event \<Rightarrow> bool" where
  "enabled e s (ChangeStartDate d) = (currentStep s = 1)"
| "enabled e s (ChangeEndDate d) = (currentStep s = 1)"
| "enabled e s (ChangeAdults n) = (currentStep s = 2 \<and> 1 \<le> n \<and> n \<le> 8)"
| "enabled e s (ChangeChildren n) = (currentStep s = 2 \<and> 0 \<le> n \<and> n \<le> 6)"
| "enabled e s (ChangeInfants n) = (currentStep s = 2 \<and> 0 \<le> n \<and> n \<le> 3)"
| "enabled e s (ChangePets n) = (currentStep s = 2 \<and> pet_friendly (property e) \<and> 0 \<le> n \<and> n \<le> 3)"
| "enabled e s (ChangeSpecialRequests r) = (currentStep s = 2)"
| "enabled e s ClickCheckAvailability =
     (currentStep s = 1 \<and> \<not> (startDate s = [] \<or> endDate s = [] \<or> checkAvailabilityPending s))"
| "enabled e s ClickBackToDates = (currentStep s = 2)"
| "enabled e s ClickContinue = (currentStep s = 2 \<and> \<not> createBookingPending s)"
| "enabled e s ClickBackToDetails = (currentStep s = 3)"
| "enabled e s ClickPay = (currentStep s = 3 \<and> \<not> (isProcessing s \<or> \<not> stripe_ready e))"
| "enabled e s (AvailabilityReply r) = checkAvailabilityPending s"
| "enabled e s (BookingReply r) = createBookingPending s"
| "enabled e s (IntentReply r) = (payment_task s = Some AwaitIntent)"
| "enabled e s (CardReply r) = (case payment_task s of Some (AwaitCard b) \<Rightarrow> True | _ \<Rightarrow> False)"
| "enabled e s (ConfirmReply r) = (payment_task s = Some AwaitConfirm)"

fun fire :: "env \<Rightarrow> event \<Rightarrow> flow \<Rightarrow> flow" where
  "fire e (ChangeStartDate d) s = s\<lparr>startDate := d\<rparr>"
| "fire e (ChangeEndDate d) s = s\<lparr>endDate := d\<rparr>"
| "fire e (ChangeAdults n) s = s\<lparr>adults := Some n\<rparr>"
| "fire e (ChangeChildren n) s = s\<lparr>children := Some n\<rparr>"
| "fire e (ChangeInfants n) s = s\<lparr>infants := n\<rparr>"
| "fire e (ChangePets n) s = s\<lparr>pets := n\<rparr>"
| "fire e (ChangeSpecialRequests r) s = s\<lparr>specialRequests := r\<rparr>"
| "fire e ClickCheckAvailability s = handleDateSubmit e s"
| "fire e ClickBackToDates s = s\<lparr>currentStep := 1\<rparr>"
| "fire e ClickContinue s = handleBookingSubmit e s"
| "fire e ClickBackToDetails s = s\<lparr>currentStep := 2\<rparr>"
| "fire e ClickPay s = handlePaymentSubmit e s"
| "fire e (AvailabilityReply r) s = checkAvailability_settled r s"
| "fire e (BookingReply r) s = createBooking_settled r s"
| "fire e (IntentReply r) s = createPaymentIntent_settled r s"
| "fire e (CardReply r) s =
     (case payment_task s of
        Some (AwaitCard captured) \<Rightarrow> confirmCardPayment_settled captured r s
      | _ \<Rightarrow> s)"
| "fire e (ConfirmReply r) s = confirmPayment_settled r s"

text \<open>One event: nothing happens once the component has navigated away, nor on a
  control that is absent or disabled.\<close>

definition step :: "env \<Rightarrow> flow \<Rightarrow> event \<Rightarrow> flow" where
  "step e s ev =
     (if navigated s = None \<and> enabled e s ev
      then (fire e ev s)\<lparr>history := history s @ [ev]\<rparr> else s)"

definition run :: "env \<Rightarrow> flow \<Rightarrow> event list \<Rightarrow> flow" where
  "run e s evs = foldl (step e) s evs"

inductive reachable :: "env \<Rightarrow> flow \<Rightarrow> bool" for e :: env where
  reachable_init: "reachable e (init_flow sd ed ad ch)"
| reachable_step: "reachable e s \<Longrightarrow> reachable e (step e s ev)"

subsection \<open>The rate card (lines 640 to 648)\<close>

definition default_pricing :: PricingRule where
  "default_pricing =
     \<lparr> base_price_per_night = 100, cleaning_fee = 25, pet_fee = 15, security_deposit = 100,
       min_stay_nights = 2, check_in_time = ''15:00'', check_out_time = ''11:00'' \<rparr>"

text \<open>\<^verbatim>\<open>property.property_pricing_rules?.[0] || {..}\<close>: the first rule when there is
  one (an object is truthy), the literal otherwise.\<close>

definition pricing_of :: "Property \<Rightarrow> PricingRule" where
  "pricing_of p =
     (case property_pricing_rules p of
        None \<Rightarrow> default_pricing
      | Some [] \<Rightarrow> default_pricing
      | Some (r # rs) \<Rightarrow> r)"

subsection \<open>A concrete flow\<close>

text \<open>A pet-friendly caravan with four berths and no pricing rule of its own, a
  logged-in guest, and a stay of three nights.\<close>

definition example_property :: Property where
  "example_property =
     \<lparr> property_id = ''caravan-1'', title = ''Seaside caravan'', berths = 4,
       pet_friendly = True, property_pricing_rules = None \<rparr>"

definition example_env :: env where
  "example_env =
     \<lparr> property = example_property, pricing = pricing_of example_property,
       user = Some ''guest@example.org'', stripe_ready = True, card_element = True,
       date_getTime = iso_date_ms \<rparr>"

definition example_stay :: flow where
  "example_stay = init_flow ''2025-06-01'' ''2025-06-04'' (Some 2) (Some 0)"

definition example_booking :: BookingRecord where
  "example_booking = \<lparr> booking_id = ''booking-1'', booking_status = ''pending'' \<rparr>"

definition example_intent :: PaymentIntentHandle where
  "example_intent = \<lparr> clientSecret = ''secret-1'', intentId = ''pi-1'' \<rparr>"

text \<open>The whole wizard: the dates pass, the property is free, the booking is created,
  the first click on the pay button creates the intent, the second pays.\<close>

definition example_events :: "event list" where
  "example_events =
     [ClickCheckAvailability, AvailabilityReply (Success True),
      ClickContinue, BookingReply (Success example_booking),
      ClickPay, IntentReply (Success example_intent),
      ClickPay, CardReply (StripeIntent ''succeeded'' ''pi-1''), ConfirmReply (Success ())]"

subsection \<open>Observations on the calls and on the history\<close>

text \<open>The booking records that successful \<^verbatim>\<open>create_booking\<close> answers have delivered.\<close>

fun booking_of_event :: "event \<Rightarrow> BookingRecord option" where
  "booking_of_event (BookingReply (Success b)) = Some b"
| "booking_of_event ev = None"

definition bookings_returned :: "flow \<Rightarrow> BookingRecord list" where
  "bookings_returned s = List.map_filter booking_of_event (history s)"

text \<open>The calls of the payment step, and the booking that a call names.\<close>

fun is_payment_call :: "remote_call \<Rightarrow> bool" where
  "is_payment_call (CreatePaymentIntent bid amount cur) = True"
| "is_payment_call (ConfirmCardPayment secret email) = True"
| "is_payment_call (ConfirmPayment pid bid) = True"
| "is_payment_call c = False"

fun payment_target :: "remote_call \<Rightarrow> string option" where
  "payment_target (CreatePaymentIntent bid amount cur) = Some bid"
| "payment_target (ConfirmPayment pid bid) = Some bid"
| "payment_target c = None"

fun is_card_confirmation :: "remote_call \<Rightarrow> bool" where
  "is_card_confirmation (ConfirmCardPayment secret email) = True"
| "is_card_confirmation c = False"

text \<open>Requests for a booking and their answers.\<close>

fun is_create_booking :: "remote_call \<Rightarrow> bool" where
  "is_create_booking (CreateBooking body) = True"
| "is_create_booking c = False"

fun is_booking_reply :: "event \<Rightarrow> bool" where
  "is_booking_reply (BookingReply r) = True"
| "is_booking_reply ev = False"

definition bookings_requested :: "flow \<Rightarrow> nat" where
  "bookings_requested s = length (filter is_create_booking (calls s))"

definition bookings_answered :: "flow \<Rightarrow> nat" where
  "bookings_answered s = length (filter is_booking_reply (history s))"


fun is_intent_created :: "event \<Rightarrow> bool" where
  "is_intent_created (IntentReply (Success d)) = True"
| "is_intent_created ev = False"

definition intents_created :: "flow \<Rightarrow> nat" where
  "intents_created s = length (filter is_intent_created (history s))"

subsection \<open>Invariants\<close>

text \<open>What holds of the booking record in every reachable state.\<close>

definition booking_inv :: "flow \<Rightarrow> bool" where
  "booking_inv s \<longleftrightarrow>
     1 \<le> currentStep s \<and> currentStep s \<le> 4
   \<and> (bookingData s = None \<longrightarrow> currentStep s < 3)
   \<and> (\<forall>b. bookingData s = Some b \<longrightarrow> b \<in> set (bookings_returned s))
   \<and> (payment_task s \<noteq> None \<longrightarrow> bookingData s \<noteq> None)
   \<and> (\<forall>captured. payment_task s = Some (AwaitCard captured) \<longrightarrow>
         (\<exists>b. captured = Some b \<and> b \<in> set (bookings_returned s)))
   \<and> (\<forall>c \<in> set (calls s). is_payment_call c \<longrightarrow> bookings_returned s \<noteq> [])
   \<and> (\<forall>c \<in> set (calls s). \<forall>bid. payment_target c = Some bid \<longrightarrow>
         bid \<in> booking_id ` set (bookings_returned s))"

text \<open>What holds of the create-booking mutation in every reachable state.\<close>

definition single_flight_inv :: "flow \<Rightarrow> bool" where
  "single_flight_inv s \<longleftrightarrow>
     bookings_requested s = bookings_answered s + (if createBookingPending s then 1 else 0)
   \<and> length (bookings_returned s) \<le> bookings_answered s"

text \<open>What holds of the payment handler and of the intent in every reachable state.\<close>

definition intent_inv :: "flow \<Rightarrow> bool" where
  "intent_inv s \<longleftrightarrow>
     (isProcessing s \<longleftrightarrow> payment_task s \<noteq> None)
   \<and> (payment_task s = Some AwaitIntent \<longrightarrow> paymentIntent s = None)
   \<and> intents_created s = (if paymentIntent s = None then 0 else 1)"

text \<open>What holds of the pets in every reachable state.\<close>

definition pets_inv :: "env \<Rightarrow> flow \<Rightarrow> bool" where
  "pets_inv e s \<longleftrightarrow> 0 \<le> pets s \<and> pets s \<le> 3 \<and> (pets s = 0 \<or> pet_friendly (property e))"

section \<open>Properties\<close>

subsection \<open>Arithmetic of the price\<close>





subsection \<open>The price\<close>



subsection \<open>The step machine\<close>

lemmas handler_defs =
  handleDateSubmit_def handleBookingSubmit_def handlePaymentSubmit_def
  checkAvailability_mutate_def createBooking_mutate_def createPaymentIntent_mutate_def
  createPaymentIntent_rejected_def payment_failed_def toast_error_def toast_success_def
  invoke_def

lemma run_Nil: "run e s [] = s"
  by (simp add: run_def)

lemma run_Cons: "run e s (ev # evs) = run e (step e s ev) evs"
  by (simp add: run_def)

lemma reachable_run: "reachable e s \<Longrightarrow> reachable e (run e s evs)"
  by (induction evs arbitrary: s) (simp_all add: run_Nil run_Cons reachable_step)

lemma step_enabled:
  "navigated s = None \<Longrightarrow> enabled e s ev \<Longrightarrow> step e s ev = (fire e ev s)\<lparr>history := history s @ [ev]\<rparr>"
  by (simp add: step_def)

lemma step_disabled:
  "\<not> (navigated s = None \<and> enabled e s ev) \<Longrightarrow> step e s ev = s"
  by (auto simp add: step_def)

lemma bookings_returned_history [simp]:
  "bookings_returned (s'\<lparr>history := history s @ [ev]\<rparr>) =
     bookings_returned s @ (case booking_of_event ev of None \<Rightarrow> [] | Some b \<Rightarrow> [b])"
  by (cases "booking_of_event ev") (simp_all add: bookings_returned_def List.map_filter_def)

lemma booking_inv_init: "booking_inv (init_flow sd ed ad ch)"
  by (simp add: booking_inv_def init_flow_def bookings_returned_def List.map_filter_def)

lemma booking_inv_step:
  assumes "booking_inv s"
  shows "booking_inv (step e s ev)"
proof (cases "navigated s = None \<and> enabled e s ev")
  case False
  then show ?thesis using assms by (simp add: step_disabled)
next
  case True
  then have st: "step e s ev = (fire e ev s)\<lparr>history := history s @ [ev]\<rparr>"
    by (simp add: step_enabled)
  show ?thesis
    unfolding st using assms True
    apply (cases ev)
    subgoal by (simp add: booking_inv_def)
    subgoal by (simp add: booking_inv_def)
    subgoal by (simp add: booking_inv_def)
    subgoal by (simp add: booking_inv_def)
    subgoal by (simp add: booking_inv_def)
    subgoal by (simp add: booking_inv_def)
    subgoal by (simp add: booking_inv_def)
    subgoal by (simp add: booking_inv_def handler_defs)
    subgoal by (auto simp add: booking_inv_def)
    subgoal by (simp add: booking_inv_def handler_defs)
    subgoal by (auto simp add: booking_inv_def)
    subgoal by (auto simp add: booking_inv_def handler_defs split: option.splits)
    subgoal for r by (cases r) (simp_all add: booking_inv_def handler_defs)
    subgoal for r by (cases r) (auto simp add: booking_inv_def handler_defs)
    subgoal for r by (cases r) (simp_all add: booking_inv_def handler_defs)
    subgoal for r by (cases r) (auto simp add: booking_inv_def handler_defs split: option.splits pay_task.splits)
    subgoal for r by (cases r) (simp_all add: booking_inv_def handler_defs)
    done
qed

subsection \<open>Payment only after a booking\<close>

lemma reachable_booking_inv: "reachable e s \<Longrightarrow> booking_inv s"
  by (induction rule: reachable.induct) (simp_all add: booking_inv_init booking_inv_step)



subsection \<open>Going back\<close>

text \<open>
  C8. The two Back buttons change the current step and nothing else: from step 3 to 2 and
  from step 2 to 1, the dates, the four head counts, the special requests, the booking
  record and the payment intent are what they were.
\<close>

theorem back_changes_only_the_step:
  "step e s ClickBackToDetails =
     (if navigated s = None \<and> currentStep s = 3
      then s\<lparr>currentStep := 2, history := history s @ [ClickBackToDetails]\<rparr> else s)
   \<and> step e s ClickBackToDates =
     (if navigated s = None \<and> currentStep s = 2
      then s\<lparr>currentStep := 1, history := history s @ [ClickBackToDates]\<rparr> else s)
   \<and> startDate (step e s ClickBackToDetails) = startDate s
   \<and> endDate (step e s ClickBackToDetails) = endDate s
   \<and> adults (step e s ClickBackToDetails) = adults s
   \<and> children (step e s ClickBackToDetails) = children s
   \<and> infants (step e s ClickBackToDetails) = infants s
   \<and> pets (step e s ClickBackToDetails) = pets s
   \<and> specialRequests (step e s ClickBackToDetails) = specialRequests s
   \<and> bookingData (step e s ClickBackToDetails) = bookingData s
   \<and> paymentIntent (step e s ClickBackToDetails) = paymentIntent s
   \<and> startDate (step e s ClickBackToDates) = startDate s
   \<and> endDate (step e s ClickBackToDates) = endDate s
   \<and> adults (step e s ClickBackToDates) = adults s
   \<and> children (step e s ClickBackToDates) = children s
   \<and> infants (step e s ClickBackToDates) = infants s
   \<and> pets (step e s ClickBackToDates) = pets s
   \<and> specialRequests (step e s ClickBackToDates) = specialRequests s
   \<and> bookingData (step e s ClickBackToDates) = bookingData s
   \<and> paymentIntent (step e s ClickBackToDates) = paymentIntent s"
  by (simp add: step_def)

subsection \<open>The default rate card\<close>

text \<open>
  C9. A property whose row has no pricing rule (no member, or an empty list) is booked
  with the literal rate card: 100 a night, cleaning fee 25, pet fee 15, security deposit
  100, at least 2 nights, check-in 15:00, check-out 11:00. The wizard runs to the
  confirmed step on it: the example property has no rule, its booking request carries
  the literal card, and the payment intent is created for the 361 computed from it.
\<close>

theorem default_rate_card:
  "(property_pricing_rules p = None \<or> property_pricing_rules p = Some [] \<longrightarrow>
      pricing_of p =
        \<lparr> base_price_per_night = 100, cleaning_fee = 25, pet_fee = 15, security_deposit = 100,
          min_stay_nights = 2, check_in_time = ''15:00'', check_out_time = ''11:00'' \<rparr>)
   \<and> property_pricing_rules (property example_env) = None
   \<and> pricing example_env = pricing_of (property example_env)
   \<and> currentStep (run example_env example_stay example_events) = 4
   \<and> calls (run example_env example_stay example_events) =
       [CheckAvailability ''caravan-1'' ''2025-06-01'' ''2025-06-04'',
        CreateBooking
          \<lparr> body_property_id = ''caravan-1'', body_start_date = ''2025-06-01'',
            body_end_date = ''2025-06-04'', body_adults = Some 2, body_children = Some 0,
            body_infants = 0, body_pets = 0, body_special_requests = [],
            body_pricing =
              \<lparr> base_price_per_night = 100, cleaning_fee = 25, pet_fee = 15,
                security_deposit = 100, min_stay_nights = 2, check_in_time = ''15:00'',
                check_out_time = ''11:00'' \<rparr> \<rparr>,
        CreatePaymentIntent ''booking-1'' (Some 361) ''gbp'',
        ConfirmCardPayment ''secret-1'' (Some ''guest@example.org''),
        ConfirmPayment ''pi-1'' ''booking-1'']"
proof (intro conjI impI)
  assume "property_pricing_rules p = None \<or> property_pricing_rules p = Some []"
  then show "pricing_of p =
        \<lparr> base_price_per_night = 100, cleaning_fee = 25, pet_fee = 15, security_deposit = 100,
          min_stay_nights = 2, check_in_time = ''15:00'', check_out_time = ''11:00'' \<rparr>"
    by (auto simp add: pricing_of_def default_pricing_def)
next
  show "property_pricing_rules (property example_env) = None"
    by (simp add: example_env_def example_property_def)
next
  show "pricing example_env = pricing_of (property example_env)"
    by (simp add: example_env_def)
next
  show "currentStep (run example_env example_stay example_events) = 4"
    by code_simp
next
  show "calls (run example_env example_stay example_events) =
       [CheckAvailability ''caravan-1'' ''2025-06-01'' ''2025-06-04'',
        CreateBooking
          \<lparr> body_property_id = ''caravan-1'', body_start_date = ''2025-06-01'',
            body_end_date = ''2025-06-04'', body_adults = Some 2, body_children = Some 0,
            body_infants = 0, body_pets = 0, body_special_requests = [],
            body_pricing =
              \<lparr> base_price_per_night = 100, cleaning_fee = 25, pet_fee = 15,
                security_deposit = 100, min_stay_nights = 2, check_in_time = ''15:00'',
                check_out_time = ''11:00'' \<rparr> \<rparr>,
        CreatePaymentIntent ''booking-1'' (Some 361) ''gbp'',
        ConfirmCardPayment ''secret-1'' (Some ''guest@example.org''),
        ConfirmPayment ''pi-1'' ''booking-1'']"
    by code_simp
qed

theorem default_rate_card_witness:
  "property_pricing_rules example_property = None
   \<and> base_price_per_night (pricing_of example_property) = 100
   \<and> min_stay_nights (pricing_of example_property) = 2
   \<and> check_in_time (pricing_of example_property) = ''15:00''"
proof -
  have h: "property_pricing_rules example_property = None"
    by (simp add: example_property_def)
  from default_rate_card [of example_property] h
  have "pricing_of example_property =
        \<lparr> base_price_per_night = 100, cleaning_fee = 25, pet_fee = 15, security_deposit = 100,
          min_stay_nights = 2, check_in_time = ''15:00'', check_out_time = ''11:00'' \<rparr>"
    by blast
  with h show ?thesis by simp
qed

subsection \<open>One create-booking request at a time\<close>

lemma requested_calls [simp]:
  "bookings_requested (s'\<lparr>history := h\<rparr>) = bookings_requested s'"
  by (simp add: bookings_requested_def)

lemma answered_history [simp]:
  "bookings_answered (s'\<lparr>history := history s @ [ev]\<rparr>) =
     bookings_answered s + (if is_booking_reply ev then 1 else 0)"
  by (simp add: bookings_answered_def)

lemma single_flight_inv_init: "single_flight_inv (init_flow sd ed ad ch)"
  by (simp add: single_flight_inv_def init_flow_def bookings_requested_def
      bookings_answered_def bookings_returned_def List.map_filter_def)

lemma single_flight_inv_step:
  assumes "single_flight_inv s"
  shows "single_flight_inv (step e s ev)"
proof (cases "navigated s = None \<and> enabled e s ev")
  case False
  then show ?thesis using assms by (simp add: step_disabled)
next
  case True
  then have st: "step e s ev = (fire e ev s)\<lparr>history := history s @ [ev]\<rparr>"
    by (simp add: step_enabled)
  show ?thesis
    unfolding st using assms True
    apply (cases ev)
    subgoal by (simp add: single_flight_inv_def bookings_requested_def)
    subgoal by (simp add: single_flight_inv_def bookings_requested_def)
    subgoal by (simp add: single_flight_inv_def bookings_requested_def)
    subgoal by (simp add: single_flight_inv_def bookings_requested_def)
    subgoal by (simp add: single_flight_inv_def bookings_requested_def)
    subgoal by (simp add: single_flight_inv_def bookings_requested_def)
    subgoal by (simp add: single_flight_inv_def bookings_requested_def)
    subgoal by (simp add: single_flight_inv_def bookings_requested_def handler_defs)
    subgoal by (simp add: single_flight_inv_def bookings_requested_def)
    subgoal by (simp add: single_flight_inv_def bookings_requested_def handler_defs)
    subgoal by (simp add: single_flight_inv_def bookings_requested_def)
    subgoal by (simp add: single_flight_inv_def bookings_requested_def handler_defs split: option.splits)
    subgoal for r by (cases r) (simp_all add: single_flight_inv_def bookings_requested_def handler_defs)
    subgoal for r by (cases r) (simp_all add: single_flight_inv_def bookings_requested_def handler_defs)
    subgoal for r by (cases r) (simp_all add: single_flight_inv_def bookings_requested_def handler_defs)
    subgoal for r by (cases r) (simp_all add: single_flight_inv_def bookings_requested_def handler_defs split: option.splits pay_task.splits)
    subgoal for r by (cases r) (simp_all add: single_flight_inv_def bookings_requested_def handler_defs)
    done
qed

lemma reachable_single_flight_inv: "reachable e s \<Longrightarrow> single_flight_inv s"
  by (induction rule: reachable.induct) (simp_all add: single_flight_inv_init single_flight_inv_step)

text \<open>
  C6. While a create-booking request is under way the submit button is disabled: a click
  on it changes nothing and sends nothing. So in every reachable state at most one such
  request is unanswered (one exactly while the mutation is pending, none otherwise), and
  the booking records delivered are no more than the answers, which are no more than
  the requests.
\<close>

theorem create_booking_single_flight:
  assumes "reachable e s"
  shows "bookings_requested s = bookings_answered s + (if createBookingPending s then 1 else 0)
       \<and> length (bookings_returned s) \<le> bookings_answered s
       \<and> (createBookingPending s \<longrightarrow>
            \<not> enabled e s ClickContinue \<and> step e s ClickContinue = s
            \<and> bookings_requested (step e s ClickContinue) = bookings_answered s + 1)"
proof -
  have inv: "single_flight_inv s"
    using assms by (rule reachable_single_flight_inv)
  then have a: "bookings_requested s = bookings_answered s + (if createBookingPending s then 1 else 0)"
    and b: "length (bookings_returned s) \<le> bookings_answered s"
    by (simp_all add: single_flight_inv_def)
  have c: "createBookingPending s \<longrightarrow>
            \<not> enabled e s ClickContinue \<and> step e s ClickContinue = s
            \<and> bookings_requested (step e s ClickContinue) = bookings_answered s + 1"
    using a by (simp add: step_def)
  from a b c show ?thesis by blast
qed

theorem create_booking_single_flight_witness:
  "reachable example_env (run example_env example_stay (take 3 example_events))
   \<and> createBookingPending (run example_env example_stay (take 3 example_events))
   \<and> bookings_requested (run example_env example_stay (take 3 example_events)) = 1
   \<and> bookings_answered (run example_env example_stay (take 3 example_events)) = 0
   \<and> step example_env (run example_env example_stay (take 3 example_events)) ClickContinue
       = run example_env example_stay (take 3 example_events)"
proof -
  have r: "reachable example_env (run example_env example_stay (take 3 example_events))"
    unfolding example_stay_def by (intro reachable_run reachable_init)
  have p: "createBookingPending (run example_env example_stay (take 3 example_events))"
    by code_simp
  have n: "bookings_answered (run example_env example_stay (take 3 example_events)) = 0"
    by code_simp
  from create_booking_single_flight [OF r] p n r show ?thesis by simp
qed

subsection \<open>One payment intent\<close>

lemma intents_created_history [simp]:
  "intents_created (s'\<lparr>history := history s @ [ev]\<rparr>) =
     intents_created s + (if is_intent_created ev then 1 else 0)"
  by (simp add: intents_created_def)

lemma intent_inv_init: "intent_inv (init_flow sd ed ad ch)"
  by (simp add: intent_inv_def init_flow_def intents_created_def)

lemma intent_inv_step:
  assumes "intent_inv s"
  shows "intent_inv (step e s ev)"
proof (cases "navigated s = None \<and> enabled e s ev")
  case False
  then show ?thesis using assms by (simp add: step_disabled)
next
  case True
  then have st: "step e s ev = (fire e ev s)\<lparr>history := history s @ [ev]\<rparr>"
    by (simp add: step_enabled)
  show ?thesis
    unfolding st using assms True
    apply (cases ev)
    subgoal by (simp add: intent_inv_def)
    subgoal by (simp add: intent_inv_def)
    subgoal by (simp add: intent_inv_def)
    subgoal by (simp add: intent_inv_def)
    subgoal by (simp add: intent_inv_def)
    subgoal by (simp add: intent_inv_def)
    subgoal by (simp add: intent_inv_def)
    subgoal by (simp add: intent_inv_def handler_defs)
    subgoal by (simp add: intent_inv_def)
    subgoal by (simp add: intent_inv_def handler_defs)
    subgoal by (simp add: intent_inv_def)
    subgoal by (auto simp add: intent_inv_def handler_defs split: option.splits)
    subgoal for r by (cases r) (simp_all add: intent_inv_def handler_defs)
    subgoal for r by (cases r) (simp_all add: intent_inv_def handler_defs)
    subgoal for r by (cases r) (auto simp add: intent_inv_def handler_defs)
    subgoal for r by (cases r) (auto simp add: intent_inv_def handler_defs split: option.splits pay_task.splits)
    subgoal for r by (cases r) (auto simp add: intent_inv_def handler_defs)
    done
qed

lemma reachable_intent_inv: "reachable e s \<Longrightarrow> intent_inv s"
  by (induction rule: reachable.induct) (simp_all add: intent_inv_init intent_inv_step)







lemma nights_depends:
  assumes "startDate s' = startDate s" "endDate s' = endDate s" 
  shows "nights e s' = nights e s"
  unfolding nights_def assms ..

lemma totalPrice_depends:
  assumes "startDate s' = startDate s" "endDate s' = endDate s" "pets s' = pets s"
  shows "totalPrice e s' = totalPrice e s"
proof -
  have n: "nights e s' = nights e s"
    using assms(1,2) by (rule nights_depends)
  have b: "basePrice e s' = basePrice e s"
    unfolding basePrice_def n ..
  have f: "serviceFee e s' = serviceFee e s"
    unfolding serviceFee_def b ..
  have p: "petFee e s' = petFee e s"
    unfolding petFee_def assms(3) ..
  show ?thesis
    unfolding totalPrice_def b f p ..
qed

lemma totalPrice_processing [simp]:
  "totalPrice e (s\<lparr>isProcessing := v\<rparr>) = totalPrice e s"
  by (rule totalPrice_depends) simp_all


lemma pay_click_without_intent:
  assumes "navigated s = None" "enabled e s ClickPay" "paymentIntent s = None" "bookingData s = Some b"
  shows "step e s ClickPay =
           s\<lparr>isProcessing := True,
             calls := calls s @ [CreatePaymentIntent (booking_id b) (totalPrice e s) ''gbp''],
             payment_task := Some AwaitIntent,
             history := history s @ [ClickPay]\<rparr>"
  using assms by (simp add: step_def handler_defs)

lemma intent_success:
  assumes "navigated s = None" "payment_task s = Some AwaitIntent"
  shows "step e s (IntentReply (Success d)) =
           s\<lparr>paymentIntent := Some d,
             toasts := toasts s @ [ToastSuccess ''Ready to process payment''],
             isProcessing := False, payment_task := None,
             history := history s @ [IntentReply (Success d)]\<rparr>"
  using assms by (simp add: step_def handler_defs)

lemma intent_failure:
  assumes "navigated s = None" "payment_task s = Some AwaitIntent"
  shows "step e s (IntentReply (Failure m)) =
           s\<lparr>toasts := toasts s @ [ToastError (msg_or m ''Failed to create payment intent''),
                                   ToastError (msg_or m ''Payment failed'')],
             isProcessing := False, payment_task := None,
             history := history s @ [IntentReply (Failure m)]\<rparr>"
  using assms by (simp add: step_def handler_defs)

lemma pay_click_with_intent_eq:
  assumes "navigated s = None" "enabled e s ClickPay" "paymentIntent s = Some i" "card_element e"
  shows "step e s ClickPay =
           s\<lparr>isProcessing := True,
             calls := calls s @ [ConfirmCardPayment (clientSecret i) (user e)],
             payment_task := Some (AwaitCard (bookingData s)),
             history := history s @ [ClickPay]\<rparr>"
  using assms by (simp add: step_def handler_defs)


text \<open>
  C10. Without a stored intent the payment handler never confirms a card and never
  changes the step. On the payment step, with a booking and no intent, a click on the
  pay button sends the create-payment-intent request for the booking and the total and
  suspends; the answer ends the handler on the same step with no further call, the
  intent stored when the answer is a success and absent when it is a failure. Only the
  next click, which finds the intent, sends the card confirmation.
\<close>

theorem first_pay_click_only_creates_intent:
  "(paymentIntent s = None \<longrightarrow>
      currentStep (handlePaymentSubmit e s) = currentStep s
    \<and> paymentIntent (handlePaymentSubmit e s) = None
    \<and> filter is_card_confirmation (calls (handlePaymentSubmit e s))
        = filter is_card_confirmation (calls s))
   \<and> (navigated s = None \<and> enabled e s ClickPay \<and> paymentIntent s = None \<and> bookingData s = Some b \<longrightarrow>
      calls (step e s ClickPay) = calls s @ [CreatePaymentIntent (booking_id b) (totalPrice e s) ''gbp'']
    \<and> currentStep (step e s ClickPay) = currentStep s
    \<and> isProcessing (step e s ClickPay)
    \<and> payment_task (step e s ClickPay) = Some AwaitIntent
    \<and> paymentIntent (step e s ClickPay) = None
    \<and> calls (step e (step e s ClickPay) (IntentReply (Success d))) = calls (step e s ClickPay)
    \<and> currentStep (step e (step e s ClickPay) (IntentReply (Success d))) = currentStep s
    \<and> paymentIntent (step e (step e s ClickPay) (IntentReply (Success d))) = Some d
    \<and> \<not> isProcessing (step e (step e s ClickPay) (IntentReply (Success d)))
    \<and> payment_task (step e (step e s ClickPay) (IntentReply (Success d))) = None
    \<and> toasts (step e (step e s ClickPay) (IntentReply (Success d)))
        = toasts s @ [ToastSuccess ''Ready to process payment'']
    \<and> calls (step e (step e s ClickPay) (IntentReply (Failure m))) = calls (step e s ClickPay)
    \<and> currentStep (step e (step e s ClickPay) (IntentReply (Failure m))) = currentStep s
    \<and> paymentIntent (step e (step e s ClickPay) (IntentReply (Failure m))) = None
    \<and> \<not> isProcessing (step e (step e s ClickPay) (IntentReply (Failure m)))
    \<and> (card_element e \<longrightarrow>
         calls (step e (step e (step e s ClickPay) (IntentReply (Success d))) ClickPay)
           = calls s @ [CreatePaymentIntent (booking_id b) (totalPrice e s) ''gbp'',
                        ConfirmCardPayment (clientSecret d) (user e)]))"
proof (intro conjI impI)
  assume "paymentIntent s = None"
  then show "currentStep (handlePaymentSubmit e s) = currentStep s"
    "paymentIntent (handlePaymentSubmit e s) = None"
    "filter is_card_confirmation (calls (handlePaymentSubmit e s))
        = filter is_card_confirmation (calls s)"
    by (simp_all add: handler_defs split: option.splits)
next
  assume h: "navigated s = None \<and> enabled e s ClickPay \<and> paymentIntent s = None \<and> bookingData s = Some b"
  define s1 where "s1 = step e s ClickPay"
  define s2 where "s2 = step e s1 (IntentReply (Success d))"
  define s3 where "s3 = step e s1 (IntentReply (Failure m))"
  have s1: "s1 = s\<lparr>isProcessing := True,
                   calls := calls s @ [CreatePaymentIntent (booking_id b) (totalPrice e s) ''gbp''],
                   payment_task := Some AwaitIntent,
                   history := history s @ [ClickPay]\<rparr>"
    unfolding s1_def using h by (intro pay_click_without_intent) simp_all
  have f1: "calls s1 = calls s @ [CreatePaymentIntent (booking_id b) (totalPrice e s) ''gbp'']"
    "currentStep s1 = currentStep s" "isProcessing s1" "payment_task s1 = Some AwaitIntent"
    "paymentIntent s1 = None" "navigated s1 = None" "toasts s1 = toasts s"
    using h by (simp_all add: s1)
  have s2: "s2 = s1\<lparr>paymentIntent := Some d,
             toasts := toasts s1 @ [ToastSuccess ''Ready to process payment''],
             isProcessing := False, payment_task := None,
             history := history s1 @ [IntentReply (Success d)]\<rparr>"
    unfolding s2_def using f1 by (intro intent_success) simp_all
  have f2: "calls s2 = calls s1" "currentStep s2 = currentStep s" "paymentIntent s2 = Some d"
    "\<not> isProcessing s2" "payment_task s2 = None" "navigated s2 = None"
    "toasts s2 = toasts s @ [ToastSuccess ''Ready to process payment'']"
    using f1 by (simp_all add: s2)
  have s3: "s3 = s1\<lparr>toasts := toasts s1 @ [ToastError (msg_or m ''Failed to create payment intent''),
                                   ToastError (msg_or m ''Payment failed'')],
             isProcessing := False, payment_task := None,
             history := history s1 @ [IntentReply (Failure m)]\<rparr>"
    unfolding s3_def using f1 by (intro intent_failure) simp_all
  have f3: "calls s3 = calls s1" "currentStep s3 = currentStep s" "paymentIntent s3 = None"
    "\<not> isProcessing s3"
    using f1 by (simp_all add: s3)
  show "calls (step e s ClickPay) = calls s @ [CreatePaymentIntent (booking_id b) (totalPrice e s) ''gbp'']"
    "currentStep (step e s ClickPay) = currentStep s"
    "isProcessing (step e s ClickPay)"
    "payment_task (step e s ClickPay) = Some AwaitIntent"
    "paymentIntent (step e s ClickPay) = None"
    using f1 unfolding s1_def by simp_all
  show "calls (step e (step e s ClickPay) (IntentReply (Success d))) = calls (step e s ClickPay)"
    "currentStep (step e (step e s ClickPay) (IntentReply (Success d))) = currentStep s"
    "paymentIntent (step e (step e s ClickPay) (IntentReply (Success d))) = Some d"
    "\<not> isProcessing (step e (step e s ClickPay) (IntentReply (Success d)))"
    "payment_task (step e (step e s ClickPay) (IntentReply (Success d))) = None"
    "toasts (step e (step e s ClickPay) (IntentReply (Success d)))
        = toasts s @ [ToastSuccess ''Ready to process payment'']"
    using f2 unfolding s2_def s1_def by simp_all
  show "calls (step e (step e s ClickPay) (IntentReply (Failure m))) = calls (step e s ClickPay)"
    "currentStep (step e (step e s ClickPay) (IntentReply (Failure m))) = currentStep s"
    "paymentIntent (step e (step e s ClickPay) (IntentReply (Failure m))) = None"
    "\<not> isProcessing (step e (step e s ClickPay) (IntentReply (Failure m)))"
    using f3 unfolding s3_def s1_def by simp_all
  assume ce: "card_element e"
  have en: "enabled e s2 ClickPay"
    using h f2 by simp
  have "step e s2 ClickPay =
           s2\<lparr>isProcessing := True,
             calls := calls s2 @ [ConfirmCardPayment (clientSecret d) (user e)],
             payment_task := Some (AwaitCard (bookingData s2)),
             history := history s2 @ [ClickPay]\<rparr>"
    using f2 en ce by (intro pay_click_with_intent_eq) simp_all
  then have "calls (step e s2 ClickPay) = calls s2 @ [ConfirmCardPayment (clientSecret d) (user e)]"
    by simp
  with f1 f2 show "calls (step e (step e (step e s ClickPay) (IntentReply (Success d))) ClickPay)
           = calls s @ [CreatePaymentIntent (booking_id b) (totalPrice e s) ''gbp'',
                        ConfirmCardPayment (clientSecret d) (user e)]"
    unfolding s2_def s1_def by simp
qed

theorem first_pay_click_only_creates_intent_witness:
  "navigated (run example_env example_stay (take 4 example_events)) = None
   \<and> enabled example_env (run example_env example_stay (take 4 example_events)) ClickPay
   \<and> paymentIntent (run example_env example_stay (take 4 example_events)) = None
   \<and> bookingData (run example_env example_stay (take 4 example_events)) = Some example_booking
   \<and> card_element example_env
   \<and> currentStep (step example_env (run example_env example_stay (take 4 example_events)) ClickPay) = 3
   \<and> payment_task (step example_env (run example_env example_stay (take 4 example_events)) ClickPay)
       = Some AwaitIntent
   \<and> calls (step example_env (run example_env example_stay (take 4 example_events)) ClickPay)
       = calls (run example_env example_stay (take 4 example_events))
         @ [CreatePaymentIntent ''booking-1'' (Some 361) ''gbp'']"
proof -
  define S where "S = run example_env example_stay (take 4 example_events)"
  have n: "navigated S = None"
    unfolding S_def by code_simp
  have en: "enabled example_env S ClickPay"
    unfolding S_def by code_simp
  have p: "paymentIntent S = None"
    unfolding S_def by code_simp
  have b: "bookingData S = Some example_booking"
    unfolding S_def by code_simp
  have c: "card_element example_env"
    by code_simp
  have st: "currentStep S = 3"
    unfolding S_def by code_simp
  have tp: "totalPrice example_env S = Some 361"
    unfolding S_def by code_simp
  have bi: "booking_id example_booking = ''booking-1''"
    by code_simp
  have h: "navigated S = None \<and> enabled example_env S ClickPay \<and> paymentIntent S = None
           \<and> bookingData S = Some example_booking"
    using n en p b by (intro conjI)
  note th = first_pay_click_only_creates_intent
         [of S example_env example_booking, THEN conjunct2, rule_format, OF h]
  from th have a: "calls (step example_env S ClickPay)
      = calls S @ [CreatePaymentIntent (booking_id example_booking) (totalPrice example_env S) ''gbp'']"
    by (rule conjunct1)
  from th have b1: "currentStep (step example_env S ClickPay) = currentStep S"
    by (rule conjunct2 [THEN conjunct1])
  from th have c1: "payment_task (step example_env S ClickPay) = Some AwaitIntent"
    by (rule conjunct2 [THEN conjunct2, THEN conjunct2, THEN conjunct1])
  from n en p b c a b1 c1 st tp bi show ?thesis
    unfolding S_def [symmetric] by simp
qed

subsection \<open>A payment that the remote system does not confirm\<close>

lemma confirm_failure:
  assumes "navigated s = None" "payment_task s = Some AwaitConfirm"
  shows "step e s (ConfirmReply (Failure m)) =
           s\<lparr>toasts := toasts s @ [ToastError (msg_or m ''Payment failed'')],
             isProcessing := False, payment_task := None,
             history := history s @ [ConfirmReply (Failure m)]\<rparr>"
  using assms by (simp add: step_def handler_defs)

lemma confirm_success:
  assumes "navigated s = None" "payment_task s = Some AwaitConfirm"
  shows "step e s (ConfirmReply (Success u)) =
           s\<lparr>toasts := toasts s @ [ToastSuccess ''Payment successful! Booking confirmed!''],
             currentStep := 4, isProcessing := False, payment_task := None,
             history := history s @ [ConfirmReply (Success u)]\<rparr>"
  using assms by (simp add: step_def handler_defs)

lemma card_error:
  assumes "navigated s = None" "payment_task s = Some (AwaitCard b)"
  shows "step e s (CardReply (StripeError m)) =
           s\<lparr>toasts := toasts s @ [ToastError (msg_or m ''Payment failed'')],
             isProcessing := False, payment_task := None,
             history := history s @ [CardReply (StripeError m)]\<rparr>"
  using assms by (simp add: step_def handler_defs)

lemma card_succeeded:
  assumes "navigated s = None" "payment_task s = Some (AwaitCard (Some b))"
  shows "step e s (CardReply (StripeIntent ''succeeded'' pid)) =
           s\<lparr>calls := calls s @ [ConfirmPayment pid (booking_id b)],
             payment_task := Some AwaitConfirm,
             history := history s @ [CardReply (StripeIntent ''succeeded'' pid)]\<rparr>"
  using assms by (simp add: step_def handler_defs)

lemma card_element_missing:
  assumes "navigated s = None" "enabled e s ClickPay" "paymentIntent s = Some i" "\<not> card_element e"
  shows "step e s ClickPay =
           s\<lparr>isProcessing := False,
             toasts := toasts s @ [ToastError ''Card element not found''],
             payment_task := None,
             history := history s @ [ClickPay]\<rparr>"
  using assms by (simp add: step_def handler_defs msg_or_def)

text \<open>
  C3 as the code has it. When the provider has reported success and the confirm-payment
  call fails, the handler shows the message of the failure as an error toast
  (\<open>Payment failed\<close> when it has none), which is what it shows for a card error
  with that message. The step, the booking, the intent and the calls stay as they
  are, the handler ends and \<open>isProcessing\<close> is cleared, so on the payment step the pay
  button is enabled again. The handler sends no call of its own after the failure.
\<close>

theorem confirm_payment_failure_outcome:
  "(navigated s = None \<and> payment_task s = Some AwaitConfirm \<longrightarrow>
       toasts (step e s (ConfirmReply (Failure m))) = toasts s @ [ToastError (msg_or m ''Payment failed'')]
     \<and> currentStep (step e s (ConfirmReply (Failure m))) = currentStep s
     \<and> bookingData (step e s (ConfirmReply (Failure m))) = bookingData s
     \<and> paymentIntent (step e s (ConfirmReply (Failure m))) = paymentIntent s
     \<and> calls (step e s (ConfirmReply (Failure m))) = calls s
     \<and> \<not> isProcessing (step e s (ConfirmReply (Failure m)))
     \<and> payment_task (step e s (ConfirmReply (Failure m))) = None
     \<and> (currentStep s = 3 \<and> stripe_ready e \<longrightarrow> enabled e (step e s (ConfirmReply (Failure m))) ClickPay))
   \<and> (navigated s = None \<and> payment_task s = Some (AwaitCard b) \<longrightarrow>
       toasts (step e s (CardReply (StripeError m))) = toasts s @ [ToastError (msg_or m ''Payment failed'')]
     \<and> currentStep (step e s (CardReply (StripeError m))) = currentStep s
     \<and> bookingData (step e s (CardReply (StripeError m))) = bookingData s
     \<and> paymentIntent (step e s (CardReply (StripeError m))) = paymentIntent s
     \<and> calls (step e s (CardReply (StripeError m))) = calls s
     \<and> \<not> isProcessing (step e s (CardReply (StripeError m)))
     \<and> payment_task (step e s (CardReply (StripeError m))) = None)"
proof (intro conjI impI)
  assume h: "navigated s = None \<and> payment_task s = Some AwaitConfirm"
  then have eq: "step e s (ConfirmReply (Failure m)) =
           s\<lparr>toasts := toasts s @ [ToastError (msg_or m ''Payment failed'')],
             isProcessing := False, payment_task := None,
             history := history s @ [ConfirmReply (Failure m)]\<rparr>"
    by (intro confirm_failure) simp_all
  show "toasts (step e s (ConfirmReply (Failure m))) = toasts s @ [ToastError (msg_or m ''Payment failed'')]"
    "currentStep (step e s (ConfirmReply (Failure m))) = currentStep s"
    "bookingData (step e s (ConfirmReply (Failure m))) = bookingData s"
    "paymentIntent (step e s (ConfirmReply (Failure m))) = paymentIntent s"
    "calls (step e s (ConfirmReply (Failure m))) = calls s"
    "\<not> isProcessing (step e s (ConfirmReply (Failure m)))"
    "payment_task (step e s (ConfirmReply (Failure m))) = None"
    by (simp_all add: eq)
  assume "currentStep s = 3 \<and> stripe_ready e"
  then show "enabled e (step e s (ConfirmReply (Failure m))) ClickPay"
    by (simp add: eq)
next
  assume h: "navigated s = None \<and> payment_task s = Some (AwaitCard b)"
  then have eq: "step e s (CardReply (StripeError m)) =
           s\<lparr>toasts := toasts s @ [ToastError (msg_or m ''Payment failed'')],
             isProcessing := False, payment_task := None,
             history := history s @ [CardReply (StripeError m)]\<rparr>"
    by (intro card_error) simp_all
  show "toasts (step e s (CardReply (StripeError m))) = toasts s @ [ToastError (msg_or m ''Payment failed'')]"
    "currentStep (step e s (CardReply (StripeError m))) = currentStep s"
    "bookingData (step e s (CardReply (StripeError m))) = bookingData s"
    "paymentIntent (step e s (CardReply (StripeError m))) = paymentIntent s"
    "calls (step e s (CardReply (StripeError m))) = calls s"
    "\<not> isProcessing (step e s (CardReply (StripeError m)))"
    "payment_task (step e s (CardReply (StripeError m))) = None"
    by (simp_all add: eq)
qed

theorem confirm_payment_failure_outcome_witness:
  "navigated (run example_env example_stay (take 8 example_events)) = None
   \<and> payment_task (run example_env example_stay (take 8 example_events)) = Some AwaitConfirm
   \<and> currentStep (run example_env example_stay (take 8 example_events)) = 3
   \<and> stripe_ready example_env
   \<and> toasts (step example_env (run example_env example_stay (take 8 example_events))
               (ConfirmReply (Failure ''Booking not found'')))
       = toasts (run example_env example_stay (take 8 example_events))
         @ [ToastError ''Booking not found'']
   \<and> enabled example_env
        (step example_env (run example_env example_stay (take 8 example_events))
               (ConfirmReply (Failure ''Booking not found''))) ClickPay"
proof -
  define S where "S = run example_env example_stay (take 8 example_events)"
  have n: "navigated S = None"
    unfolding S_def by code_simp
  have t: "payment_task S = Some AwaitConfirm"
    unfolding S_def by code_simp
  have c: "currentStep S = 3"
    unfolding S_def by code_simp
  have r: "stripe_ready example_env"
    by code_simp
  have h: "navigated S = None \<and> payment_task S = Some AwaitConfirm"
    using n t by (intro conjI)
  have g: "currentStep S = 3 \<and> stripe_ready example_env"
    using c r by (intro conjI)
  note th = confirm_payment_failure_outcome
      [of S example_env "''Booking not found''", THEN conjunct1, rule_format, OF h]
  from th have a: "toasts (step example_env S (ConfirmReply (Failure ''Booking not found'')))
       = toasts S @ [ToastError (msg_or ''Booking not found'' ''Payment failed'')]"
    by (rule conjunct1)
  have m: "msg_or ''Booking not found'' ''Payment failed'' = ''Booking not found''"
    by (simp add: msg_or_def)
  from th have "currentStep S = 3 \<and> stripe_ready example_env \<longrightarrow>
      enabled example_env (step example_env S (ConfirmReply (Failure ''Booking not found''))) ClickPay"
    by (rule conjunct2 [THEN conjunct2, THEN conjunct2, THEN conjunct2, THEN conjunct2,
          THEN conjunct2, THEN conjunct2])
  with g have b: "enabled example_env (step example_env S (ConfirmReply (Failure ''Booking not found''))) ClickPay"
    by (rule rev_mp)
  from n t c r a b m show ?thesis
    unfolding S_def [symmetric] by simp
qed

text \<open>The claim fails: with the same message, a confirmation that failed after the
  card was charged and a card that was declined leave the same toasts, and both leave
  the flow on the payment step with the handler ended and the pay button enabled; a
  click then sends the card confirmation again, with the same client secret.\<close>

theorem confirmation_mismatch_counterexample:
  "toasts (run example_env example_stay
             (take 8 example_events @ [ConfirmReply (Failure ''Request failed'')]))
     = toasts (run example_env example_stay
             (take 7 example_events @ [CardReply (StripeError ''Request failed'')]))
   \<and> currentStep (run example_env example_stay
             (take 8 example_events @ [ConfirmReply (Failure ''Request failed'')])) = 3
   \<and> currentStep (run example_env example_stay
             (take 7 example_events @ [CardReply (StripeError ''Request failed'')])) = 3
   \<and> isProcessing (run example_env example_stay
             (take 8 example_events @ [ConfirmReply (Failure ''Request failed'')])) = False
   \<and> enabled example_env (run example_env example_stay
             (take 8 example_events @ [ConfirmReply (Failure ''Request failed'')])) ClickPay
   \<and> calls (run example_env example_stay
             (take 8 example_events @ [ConfirmReply (Failure ''Request failed''), ClickPay]))
     = calls (run example_env example_stay (take 8 example_events))
       @ [ConfirmCardPayment ''secret-1'' (Some ''guest@example.org'')]"
  by (intro conjI; code_simp)

subsection \<open>How the payment handler ends\<close>

text \<open>
  C7 as the code has it. The payment handler ends in one of these ways. The answer to
  its create-payment-intent request ends it on the same step, with the toast
  \<open>Ready to process payment\<close> for a success and two error toasts for a failure. A
  missing card field, an error of the card confirmation and a failure of the
  confirm-payment call each end it on the same step with one error toast. A card
  confirmation that has succeeded sends the confirm-payment call, and the success of
  that call ends the handler on step 4 with a success toast. In every reachable state
  the step is one of 1 to 4, and \<open>isProcessing\<close> is set exactly while the handler is
  suspended. (A card confirmation that comes back without an error and with another
  status than \<open>succeeded\<close> is not covered.)
\<close>

theorem payment_handler_outcomes:
  "(navigated s = None \<and> payment_task s = Some AwaitIntent \<longrightarrow>
       toasts (step e s (IntentReply (Success d))) = toasts s @ [ToastSuccess ''Ready to process payment'']
     \<and> currentStep (step e s (IntentReply (Success d))) = currentStep s
     \<and> \<not> isProcessing (step e s (IntentReply (Success d)))
     \<and> payment_task (step e s (IntentReply (Success d))) = None
     \<and> toasts (step e s (IntentReply (Failure m)))
         = toasts s @ [ToastError (msg_or m ''Failed to create payment intent''),
                       ToastError (msg_or m ''Payment failed'')]
     \<and> currentStep (step e s (IntentReply (Failure m))) = currentStep s
     \<and> \<not> isProcessing (step e s (IntentReply (Failure m)))
     \<and> payment_task (step e s (IntentReply (Failure m))) = None)
   \<and> (navigated s = None \<and> enabled e s ClickPay \<and> paymentIntent s = Some i \<and> \<not> card_element e \<longrightarrow>
       toasts (step e s ClickPay) = toasts s @ [ToastError ''Card element not found'']
     \<and> currentStep (step e s ClickPay) = currentStep s
     \<and> \<not> isProcessing (step e s ClickPay)
     \<and> payment_task (step e s ClickPay) = None)
   \<and> (navigated s = None \<and> payment_task s = Some (AwaitCard c) \<longrightarrow>
       toasts (step e s (CardReply (StripeError m))) = toasts s @ [ToastError (msg_or m ''Payment failed'')]
     \<and> currentStep (step e s (CardReply (StripeError m))) = currentStep s
     \<and> \<not> isProcessing (step e s (CardReply (StripeError m)))
     \<and> payment_task (step e s (CardReply (StripeError m))) = None)
   \<and> (navigated s = None \<and> payment_task s = Some (AwaitCard (Some b)) \<longrightarrow>
       calls (step e s (CardReply (StripeIntent ''succeeded'' pid)))
         = calls s @ [ConfirmPayment pid (booking_id b)]
     \<and> payment_task (step e s (CardReply (StripeIntent ''succeeded'' pid))) = Some AwaitConfirm)
   \<and> (navigated s = None \<and> payment_task s = Some AwaitConfirm \<longrightarrow>
       toasts (step e s (ConfirmReply (Success ())))
         = toasts s @ [ToastSuccess ''Payment successful! Booking confirmed!'']
     \<and> currentStep (step e s (ConfirmReply (Success ()))) = 4
     \<and> \<not> isProcessing (step e s (ConfirmReply (Success ())))
     \<and> payment_task (step e s (ConfirmReply (Success ()))) = None
     \<and> toasts (step e s (ConfirmReply (Failure m))) = toasts s @ [ToastError (msg_or m ''Payment failed'')]
     \<and> currentStep (step e s (ConfirmReply (Failure m))) = currentStep s
     \<and> \<not> isProcessing (step e s (ConfirmReply (Failure m)))
     \<and> payment_task (step e s (ConfirmReply (Failure m))) = None)
   \<and> (reachable e s \<longrightarrow>
       1 \<le> currentStep s \<and> currentStep s \<le> 4 \<and> isProcessing s = (payment_task s \<noteq> None))"
proof (intro conjI impI)
  assume h: "navigated s = None \<and> payment_task s = Some AwaitIntent"
  then have ok: "step e s (IntentReply (Success d)) =
           s\<lparr>paymentIntent := Some d,
             toasts := toasts s @ [ToastSuccess ''Ready to process payment''],
             isProcessing := False, payment_task := None,
             history := history s @ [IntentReply (Success d)]\<rparr>"
    by (intro intent_success) simp_all
  from h have ko: "step e s (IntentReply (Failure m)) =
           s\<lparr>toasts := toasts s @ [ToastError (msg_or m ''Failed to create payment intent''),
                                   ToastError (msg_or m ''Payment failed'')],
             isProcessing := False, payment_task := None,
             history := history s @ [IntentReply (Failure m)]\<rparr>"
    by (intro intent_failure) simp_all
  show "toasts (step e s (IntentReply (Success d))) = toasts s @ [ToastSuccess ''Ready to process payment'']"
    "currentStep (step e s (IntentReply (Success d))) = currentStep s"
    "\<not> isProcessing (step e s (IntentReply (Success d)))"
    "payment_task (step e s (IntentReply (Success d))) = None"
    by (simp_all add: ok)
  show "toasts (step e s (IntentReply (Failure m)))
         = toasts s @ [ToastError (msg_or m ''Failed to create payment intent''),
                       ToastError (msg_or m ''Payment failed'')]"
    "currentStep (step e s (IntentReply (Failure m))) = currentStep s"
    "\<not> isProcessing (step e s (IntentReply (Failure m)))"
    "payment_task (step e s (IntentReply (Failure m))) = None"
    by (simp_all add: ko)
next
  assume "navigated s = None \<and> enabled e s ClickPay \<and> paymentIntent s = Some i \<and> \<not> card_element e"
  then have eq: "step e s ClickPay =
           s\<lparr>isProcessing := False,
             toasts := toasts s @ [ToastError ''Card element not found''],
             payment_task := None,
             history := history s @ [ClickPay]\<rparr>"
    by (intro card_element_missing) simp_all
  show "toasts (step e s ClickPay) = toasts s @ [ToastError ''Card element not found'']"
    "currentStep (step e s ClickPay) = currentStep s"
    "\<not> isProcessing (step e s ClickPay)"
    "payment_task (step e s ClickPay) = None"
    by (simp_all add: eq)
next
  assume "navigated s = None \<and> payment_task s = Some (AwaitCard c)"
  then have eq: "step e s (CardReply (StripeError m)) =
           s\<lparr>toasts := toasts s @ [ToastError (msg_or m ''Payment failed'')],
             isProcessing := False, payment_task := None,
             history := history s @ [CardReply (StripeError m)]\<rparr>"
    by (intro card_error) simp_all
  show "toasts (step e s (CardReply (StripeError m))) = toasts s @ [ToastError (msg_or m ''Payment failed'')]"
    "currentStep (step e s (CardReply (StripeError m))) = currentStep s"
    "\<not> isProcessing (step e s (CardReply (StripeError m)))"
    "payment_task (step e s (CardReply (StripeError m))) = None"
    by (simp_all add: eq)
next
  assume "navigated s = None \<and> payment_task s = Some (AwaitCard (Some b))"
  then have eq: "step e s (CardReply (StripeIntent ''succeeded'' pid)) =
           s\<lparr>calls := calls s @ [ConfirmPayment pid (booking_id b)],
             payment_task := Some AwaitConfirm,
             history := history s @ [CardReply (StripeIntent ''succeeded'' pid)]\<rparr>"
    by (intro card_succeeded) simp_all
  show "calls (step e s (CardReply (StripeIntent ''succeeded'' pid)))
         = calls s @ [ConfirmPayment pid (booking_id b)]"
    "payment_task (step e s (CardReply (StripeIntent ''succeeded'' pid))) = Some AwaitConfirm"
    by (simp_all add: eq)
next
  assume h: "navigated s = None \<and> payment_task s = Some AwaitConfirm"
  then have ok: "step e s (ConfirmReply (Success ())) =
           s\<lparr>toasts := toasts s @ [ToastSuccess ''Payment successful! Booking confirmed!''],
             currentStep := 4, isProcessing := False, payment_task := None,
             history := history s @ [ConfirmReply (Success ())]\<rparr>"
    by (intro confirm_success) simp_all
  from h have ko: "step e s (ConfirmReply (Failure m)) =
           s\<lparr>toasts := toasts s @ [ToastError (msg_or m ''Payment failed'')],
             isProcessing := False, payment_task := None,
             history := history s @ [ConfirmReply (Failure m)]\<rparr>"
    by (intro confirm_failure) simp_all
  show "toasts (step e s (ConfirmReply (Success ())))
         = toasts s @ [ToastSuccess ''Payment successful! Booking confirmed!'']"
    "currentStep (step e s (ConfirmReply (Success ()))) = 4"
    "\<not> isProcessing (step e s (ConfirmReply (Success ())))"
    "payment_task (step e s (ConfirmReply (Success ()))) = None"
    by (simp_all add: ok)
  show "toasts (step e s (ConfirmReply (Failure m))) = toasts s @ [ToastError (msg_or m ''Payment failed'')]"
    "currentStep (step e s (ConfirmReply (Failure m))) = currentStep s"
    "\<not> isProcessing (step e s (ConfirmReply (Failure m)))"
    "payment_task (step e s (ConfirmReply (Failure m))) = None"
    by (simp_all add: ko)
next
  assume r: "reachable e s"
  then have "booking_inv s"
    by (rule reachable_booking_inv)
  then show "1 \<le> currentStep s" "currentStep s \<le> 4"
    by (simp_all add: booking_inv_def)
  from r have "intent_inv s"
    by (rule reachable_intent_inv)
  then show "isProcessing s = (payment_task s \<noteq> None)"
    by (simp add: intent_inv_def)
qed

theorem payment_handler_outcomes_witness:
  "reachable example_env (run example_env example_stay (take 8 example_events))
   \<and> navigated (run example_env example_stay (take 8 example_events)) = None
   \<and> payment_task (run example_env example_stay (take 8 example_events)) = Some AwaitConfirm
   \<and> isProcessing (run example_env example_stay (take 8 example_events))
   \<and> currentStep (step example_env (run example_env example_stay (take 8 example_events))
        (ConfirmReply (Success ()))) = 4
   \<and> toasts (step example_env (run example_env example_stay (take 8 example_events))
        (ConfirmReply (Failure [])))
       = toasts (run example_env example_stay (take 8 example_events))
         @ [ToastError ''Payment failed'']"
proof -
  define S where "S = run example_env example_stay (take 8 example_events)"
  have r: "reachable example_env S"
    unfolding S_def example_stay_def by (intro reachable_run reachable_init)
  have n: "navigated S = None"
    unfolding S_def by code_simp
  have t: "payment_task S = Some AwaitConfirm"
    unfolding S_def by code_simp
  have h: "navigated S = None \<and> payment_task S = Some AwaitConfirm"
    using n t by (intro conjI)
  note th = payment_handler_outcomes [of S example_env _ "[]"]
  note confirm = th [THEN conjunct2, THEN conjunct2, THEN conjunct2, THEN conjunct2,
      THEN conjunct1, rule_format, OF h]
  note inv = th [THEN conjunct2, THEN conjunct2, THEN conjunct2, THEN conjunct2,
      THEN conjunct2, rule_format, OF r]
  from inv t have p: "isProcessing S"
    by simp
  from confirm have a: "currentStep (step example_env S (ConfirmReply (Success ()))) = 4"
    by (rule conjunct2 [THEN conjunct1])
  from confirm have b: "toasts (step example_env S (ConfirmReply (Failure [])))
      = toasts S @ [ToastError (msg_or [] ''Payment failed'')]"
    by (rule conjunct2 [THEN conjunct2, THEN conjunct2, THEN conjunct2, THEN conjunct1])
  have m: "msg_or [] ''Payment failed'' = ''Payment failed''"
    by (simp add: msg_or_def)
  from r n t p a b m show ?thesis
    unfolding S_def [symmetric] by simp
qed

text \<open>The claim fails on the first click: the handler ends on the payment step, not on
  the confirmed one, and the one toast it has shown is a success toast. It also fails on a
  card confirmation that comes back with the status \<open>processing\<close>: the handler ends
  on the payment step and shows nothing at all.\<close>

theorem payment_handler_counterexample:
  "history (run example_env example_stay (take 6 example_events))
     = history (run example_env example_stay (take 4 example_events))
       @ [ClickPay, IntentReply (Success example_intent)]
   \<and> payment_task (run example_env example_stay (take 6 example_events)) = None
   \<and> isProcessing (run example_env example_stay (take 6 example_events)) = False
   \<and> currentStep (run example_env example_stay (take 6 example_events)) = 3
   \<and> toasts (run example_env example_stay (take 6 example_events))
     = toasts (run example_env example_stay (take 4 example_events))
       @ [ToastSuccess ''Ready to process payment'']
   \<and> payment_task (run example_env example_stay (take 7 example_events))
     = Some (AwaitCard (Some example_booking))
   \<and> payment_task (run example_env example_stay
        (take 7 example_events @ [CardReply (StripeIntent ''processing'' ''pi-1'')])) = None
   \<and> isProcessing (run example_env example_stay
        (take 7 example_events @ [CardReply (StripeIntent ''processing'' ''pi-1'')])) = False
   \<and> currentStep (run example_env example_stay
        (take 7 example_events @ [CardReply (StripeIntent ''processing'' ''pi-1'')])) = 3
   \<and> toasts (run example_env example_stay
        (take 7 example_events @ [CardReply (StripeIntent ''processing'' ''pi-1'')]))
     = toasts (run example_env example_stay (take 7 example_events))
   \<and> calls (run example_env example_stay
        (take 7 example_events @ [CardReply (StripeIntent ''processing'' ''pi-1'')]))
     = calls (run example_env example_stay (take 7 example_events))"
  by (intro conjI; code_simp)

subsection \<open>Validation before the remote calls\<close>

lemma pets_inv_init: "pets_inv e (init_flow sd ed ad ch)"
  by (simp add: pets_inv_def init_flow_def)

lemma pets_fire:
  assumes "enabled e s ev"
  shows "pets (fire e ev s) = pets s \<or> (\<exists>n. ev = ChangePets n \<and> pets (fire e ev s) = n)"
  using assms
  apply (cases ev)
  subgoal by simp
  subgoal by simp
  subgoal by simp
  subgoal by simp
  subgoal by simp
  subgoal by simp
  subgoal by simp
  subgoal by (simp add: handler_defs)
  subgoal by simp
  subgoal by (simp add: handler_defs)
  subgoal by simp
  subgoal by (simp add: handler_defs split: option.splits)
  subgoal for r by (cases r) (simp_all add: handler_defs)
  subgoal for r by (cases r) (simp_all add: handler_defs)
  subgoal for r by (cases r) (simp_all add: handler_defs)
  subgoal for r by (cases r) (simp_all add: handler_defs split: option.splits pay_task.splits)
  subgoal for r by (cases r) (simp_all add: handler_defs)
  done

lemma pets_inv_step:
  assumes "pets_inv e s"
  shows "pets_inv e (step e s ev)"
proof (cases "navigated s = None \<and> enabled e s ev")
  case False
  then show ?thesis using assms by (simp add: step_disabled)
next
  case True
  then have st: "step e s ev = (fire e ev s)\<lparr>history := history s @ [ev]\<rparr>"
    by (simp add: step_enabled)
  from True have "enabled e s ev"
    by simp
  then have "pets (fire e ev s) = pets s \<or> (\<exists>n. ev = ChangePets n \<and> pets (fire e ev s) = n)"
    by (rule pets_fire)
  moreover have p: "pets (step e s ev) = pets (fire e ev s)"
    by (simp add: st)
  ultimately show ?thesis
  proof (elim disjE exE conjE)
    assume "pets (fire e ev s) = pets s"
    with assms show ?thesis
      unfolding pets_inv_def p by simp
  next
    fix n
    assume n: "ev = ChangePets n" "pets (fire e ev s) = n"
    with True have "pet_friendly (property e) \<and> 0 \<le> n \<and> n \<le> 3"
      by simp
    with n(2) show ?thesis
      unfolding pets_inv_def p by simp
  qed
qed

lemma reachable_pets_inv: "reachable e s \<Longrightarrow> pets_inv e s"
  by (induction rule: reachable.induct) (simp_all add: pets_inv_init pets_inv_step)

lemma date_submit_missing:
  assumes "startDate s = [] \<or> endDate s = []"
  shows "handleDateSubmit e s = toast_error ''Please select check-in and check-out dates'' s"
  using assms by (auto simp add: handleDateSubmit_def)

lemma date_submit_order:
  assumes "startDate s \<noteq> []" "endDate s \<noteq> []"
    and "date_getTime e (startDate s) = Some ts" "date_getTime e (endDate s) = Some te"
    and "te \<le> ts"
  shows "handleDateSubmit e s = toast_error ''Check-out date must be after check-in date'' s"
  using assms by (simp add: handleDateSubmit_def)

lemma date_submit_short:
  assumes "startDate s \<noteq> []" "endDate s \<noteq> []"
    and "date_getTime e (startDate s) = Some ts" "date_getTime e (endDate s) = Some te"
    and "ts < te" "nights e s = Some n" "n < min_stay_nights (pricing e)"
  shows "handleDateSubmit e s =
           toast_error (''Minimum stay is '' @ show_int (min_stay_nights (pricing e)) @ '' nights'') s"
  using assms by (simp add: handleDateSubmit_def)

lemma date_submit_valid:
  assumes "startDate s \<noteq> []" "endDate s \<noteq> []"
    and "date_getTime e (startDate s) = Some ts" "date_getTime e (endDate s) = Some te"
    and "ts < te" "nights e s = Some n" "min_stay_nights (pricing e) \<le> n"
  shows "handleDateSubmit e s = checkAvailability_mutate e s"
  using assms by (simp add: handleDateSubmit_def)

lemma booking_submit_login:
  assumes "user e = None"
  shows "handleBookingSubmit e s =
           (toast_error ''Please log in to make a booking'' s)\<lparr>navigated := Some ''/auth''\<rparr>"
  using assms by (simp add: handleBookingSubmit_def)

lemma booking_submit_berths:
  assumes "user e \<noteq> None" "adults s = Some a" "children s = Some c" "berths (property e) < a + c"
  shows "handleBookingSubmit e s =
           toast_error (''Property sleeps maximum '' @ show_int (berths (property e)) @ '' guests'') s"
  using assms by (auto simp add: handleBookingSubmit_def)

lemma booking_submit_valid:
  assumes "user e \<noteq> None" "adults s = Some a" "children s = Some c" "a + c \<le> berths (property e)"
  shows "handleBookingSubmit e s = createBooking_mutate e s"
  using assms by (auto simp add: handleBookingSubmit_def)

text \<open>
  C2 as the code has it. The validation is split over two handlers, and the first rule
  that fails wins in each. The handler of the dates checks that both dates are present,
  then that the check-out is after the check-in, then that the nights reach the minimum
  stay; for dates that parse, it shows the error of the first rule that fails and sends
  nothing, and it sends the check-availability request when none fails. The handler of
  the guest details checks that a user is logged in, then that adults plus children fit
  the berths, and sends the create-booking request when both hold. No handler checks the
  pets: the control lets a guest choose pets only on a pet-friendly property, so in every
  reachable state with a pet the property is pet-friendly.
\<close>

theorem validation_by_handler:
  "(startDate s = [] \<or> endDate s = [] \<longrightarrow>
       toasts (handleDateSubmit e s)
         = toasts s @ [ToastError ''Please select check-in and check-out dates'']
     \<and> calls (handleDateSubmit e s) = calls s)
   \<and> (startDate s \<noteq> [] \<and> endDate s \<noteq> [] \<and>
       date_getTime e (startDate s) = Some ts \<and> date_getTime e (endDate s) = Some te \<and> te \<le> ts \<longrightarrow>
       toasts (handleDateSubmit e s)
         = toasts s @ [ToastError ''Check-out date must be after check-in date'']
     \<and> calls (handleDateSubmit e s) = calls s)
   \<and> (startDate s \<noteq> [] \<and> endDate s \<noteq> [] \<and>
       date_getTime e (startDate s) = Some ts \<and> date_getTime e (endDate s) = Some te \<and> ts < te \<and>
       nights e s = Some n \<and> n < min_stay_nights (pricing e) \<longrightarrow>
       toasts (handleDateSubmit e s)
         = toasts s @ [ToastError (''Minimum stay is '' @ show_int (min_stay_nights (pricing e))
                                   @ '' nights'')]
     \<and> calls (handleDateSubmit e s) = calls s)
   \<and> (startDate s \<noteq> [] \<and> endDate s \<noteq> [] \<and>
       date_getTime e (startDate s) = Some ts \<and> date_getTime e (endDate s) = Some te \<and> ts < te \<and>
       nights e s = Some n \<and> min_stay_nights (pricing e) \<le> n \<longrightarrow>
       toasts (handleDateSubmit e s) = toasts s
     \<and> calls (handleDateSubmit e s)
         = calls s @ [CheckAvailability (property_id (property e)) (startDate s) (endDate s)])
   \<and> (user e = None \<longrightarrow>
       toasts (handleBookingSubmit e s) = toasts s @ [ToastError ''Please log in to make a booking'']
     \<and> navigated (handleBookingSubmit e s) = Some ''/auth''
     \<and> calls (handleBookingSubmit e s) = calls s)
   \<and> (user e \<noteq> None \<and> adults s = Some a \<and> children s = Some c \<and> berths (property e) < a + c \<longrightarrow>
       toasts (handleBookingSubmit e s)
         = toasts s @ [ToastError (''Property sleeps maximum '' @ show_int (berths (property e))
                                   @ '' guests'')]
     \<and> calls (handleBookingSubmit e s) = calls s)
   \<and> (user e \<noteq> None \<and> adults s = Some a \<and> children s = Some c \<and> a + c \<le> berths (property e) \<longrightarrow>
       toasts (handleBookingSubmit e s) = toasts s
     \<and> calls (handleBookingSubmit e s)
         = calls s @ [CreateBooking
             \<lparr> body_property_id = property_id (property e), body_start_date = startDate s,
               body_end_date = endDate s, body_adults = adults s, body_children = children s,
               body_infants = infants s, body_pets = pets s,
               body_special_requests = specialRequests s, body_pricing = pricing e \<rparr>])
   \<and> (reachable e s \<and> 0 < pets s \<longrightarrow> pet_friendly (property e))"
proof (intro conjI impI)
  assume "startDate s = [] \<or> endDate s = []"
  then have eq: "handleDateSubmit e s = toast_error ''Please select check-in and check-out dates'' s"
    by (rule date_submit_missing)
  show "toasts (handleDateSubmit e s)
         = toasts s @ [ToastError ''Please select check-in and check-out dates'']"
    "calls (handleDateSubmit e s) = calls s"
    by (simp_all add: eq toast_error_def)
next
  assume "startDate s \<noteq> [] \<and> endDate s \<noteq> [] \<and>
       date_getTime e (startDate s) = Some ts \<and> date_getTime e (endDate s) = Some te \<and> te \<le> ts"
  then have eq: "handleDateSubmit e s = toast_error ''Check-out date must be after check-in date'' s"
    using date_submit_order [of s e ts te] by blast
  show "toasts (handleDateSubmit e s)
         = toasts s @ [ToastError ''Check-out date must be after check-in date'']"
    "calls (handleDateSubmit e s) = calls s"
    by (simp_all add: eq toast_error_def)
next
  assume "startDate s \<noteq> [] \<and> endDate s \<noteq> [] \<and>
       date_getTime e (startDate s) = Some ts \<and> date_getTime e (endDate s) = Some te \<and> ts < te \<and>
       nights e s = Some n \<and> n < min_stay_nights (pricing e)"
  then have eq: "handleDateSubmit e s =
           toast_error (''Minimum stay is '' @ show_int (min_stay_nights (pricing e)) @ '' nights'') s"
    using date_submit_short [of s e ts te n] by blast
  show "toasts (handleDateSubmit e s)
         = toasts s @ [ToastError (''Minimum stay is '' @ show_int (min_stay_nights (pricing e))
                                   @ '' nights'')]"
    "calls (handleDateSubmit e s) = calls s"
    by (simp_all add: eq toast_error_def)
next
  assume "startDate s \<noteq> [] \<and> endDate s \<noteq> [] \<and>
       date_getTime e (startDate s) = Some ts \<and> date_getTime e (endDate s) = Some te \<and> ts < te \<and>
       nights e s = Some n \<and> min_stay_nights (pricing e) \<le> n"
  then have eq: "handleDateSubmit e s = checkAvailability_mutate e s"
    using date_submit_valid [of s e ts te n] by blast
  show "toasts (handleDateSubmit e s) = toasts s"
    "calls (handleDateSubmit e s)
         = calls s @ [CheckAvailability (property_id (property e)) (startDate s) (endDate s)]"
    by (simp_all add: eq checkAvailability_mutate_def invoke_def)
next
  assume "user e = None"
  then have eq: "handleBookingSubmit e s =
           (toast_error ''Please log in to make a booking'' s)\<lparr>navigated := Some ''/auth''\<rparr>"
    by (rule booking_submit_login)
  show "toasts (handleBookingSubmit e s) = toasts s @ [ToastError ''Please log in to make a booking'']"
    "navigated (handleBookingSubmit e s) = Some ''/auth''"
    "calls (handleBookingSubmit e s) = calls s"
    by (simp_all add: eq toast_error_def)
next
  assume "user e \<noteq> None \<and> adults s = Some a \<and> children s = Some c \<and> berths (property e) < a + c"
  then have eq: "handleBookingSubmit e s =
           toast_error (''Property sleeps maximum '' @ show_int (berths (property e)) @ '' guests'') s"
    using booking_submit_berths [of e s a c] by blast
  show "toasts (handleBookingSubmit e s)
         = toasts s @ [ToastError (''Property sleeps maximum '' @ show_int (berths (property e))
                                   @ '' guests'')]"
    "calls (handleBookingSubmit e s) = calls s"
    by (simp_all add: eq toast_error_def)
next
  assume "user e \<noteq> None \<and> adults s = Some a \<and> children s = Some c \<and> a + c \<le> berths (property e)"
  then have eq: "handleBookingSubmit e s = createBooking_mutate e s"
    using booking_submit_valid [of e s a c] by blast
  show "toasts (handleBookingSubmit e s) = toasts s"
    "calls (handleBookingSubmit e s)
         = calls s @ [CreateBooking
             \<lparr> body_property_id = property_id (property e), body_start_date = startDate s,
               body_end_date = endDate s, body_adults = adults s, body_children = children s,
               body_infants = infants s, body_pets = pets s,
               body_special_requests = specialRequests s, body_pricing = pricing e \<rparr>]"
    by (simp_all add: eq createBooking_mutate_def invoke_def)
next
  assume h: "reachable e s \<and> 0 < pets s"
  then have "pets_inv e s"
    by (simp add: reachable_pets_inv)
  with h show "pet_friendly (property e)"
    by (auto simp add: pets_inv_def)
qed

theorem validation_by_handler_witness:
  "startDate (init_flow ''2025-06-01'' ''2025-06-02'' (Some 2) (Some 0)) \<noteq> []
   \<and> endDate (init_flow ''2025-06-01'' ''2025-06-02'' (Some 2) (Some 0)) \<noteq> []
   \<and> date_getTime example_env ''2025-06-01'' = Some 1748736000000
   \<and> date_getTime example_env ''2025-06-02'' = Some 1748822400000
   \<and> (1748736000000 :: int) < 1748822400000
   \<and> nights example_env (init_flow ''2025-06-01'' ''2025-06-02'' (Some 2) (Some 0)) = Some 1
   \<and> (1 :: int) < min_stay_nights (pricing example_env)
   \<and> toasts (handleDateSubmit example_env (init_flow ''2025-06-01'' ''2025-06-02'' (Some 2) (Some 0)))
       = [ToastError ''Minimum stay is 2 nights'']
   \<and> calls (handleDateSubmit example_env (init_flow ''2025-06-01'' ''2025-06-02'' (Some 2) (Some 0)))
       = []"
proof -
  define S where "S = init_flow ''2025-06-01'' ''2025-06-02'' (Some 2) (Some 0)"
  have d: "startDate S = ''2025-06-01''" "endDate S = ''2025-06-02''" "toasts S = []" "calls S = []"
    unfolding S_def by (simp_all add: init_flow_def)
  have p: "date_getTime example_env ''2025-06-01'' = Some 1748736000000"
    "date_getTime example_env ''2025-06-02'' = Some 1748822400000"
    by code_simp+
  have n: "nights example_env S = Some 1"
    unfolding S_def by code_simp
  have m: "min_stay_nights (pricing example_env) = 2"
    by code_simp
  have sh: "show_int 2 = ''2''"
    by code_simp
  have h: "startDate S \<noteq> [] \<and> endDate S \<noteq> [] \<and>
       date_getTime example_env (startDate S) = Some 1748736000000 \<and>
       date_getTime example_env (endDate S) = Some 1748822400000 \<and>
       (1748736000000 :: int) < 1748822400000 \<and>
       nights example_env S = Some 1 \<and> 1 < min_stay_nights (pricing example_env)"
    using d p n m by simp
  note th = validation_by_handler [of S example_env 1748736000000 1748822400000 1,
      THEN conjunct2, THEN conjunct2, THEN conjunct1, rule_format, OF h]
  from th d m sh have a: "toasts (handleDateSubmit example_env S) = [ToastError ''Minimum stay is 2 nights'']"
    "calls (handleDateSubmit example_env S) = []"
    by simp_all
  from d p n m a show ?thesis
    unfolding S_def [symmetric] by simp
qed

text \<open>The claim fails in three places. With ten adults for four berths and good dates, the
  click on the first step sends the check-availability request: the berths are checked
  only on the second step, where the error then shows. With the check-out before the
  check-in the nights are below the minimum stay, and the error is the one of the date
  order. With one night against a minimum of two, the error is shown and nothing is
  sent, and the price values are computed all the same.\<close>

theorem validation_order_counterexample:
  "num_less (Some (berths (property example_env))) (num_add (Some 10) (Some 0))
   \<and> calls (run example_env (init_flow ''2025-06-01'' ''2025-06-04'' (Some 10) (Some 0))
        [ClickCheckAvailability])
     = [CheckAvailability ''caravan-1'' ''2025-06-01'' ''2025-06-04'']
   \<and> toasts (run example_env (init_flow ''2025-06-01'' ''2025-06-04'' (Some 10) (Some 0))
        [ClickCheckAvailability, AvailabilityReply (Success True), ClickContinue])
     = [ToastSuccess ''Property is available for your dates!'',
        ToastError ''Property sleeps maximum 4 guests'']
   \<and> nights example_env (init_flow ''2025-06-04'' ''2025-06-01'' (Some 2) (Some 0)) = Some (- 3)
   \<and> num_less (nights example_env (init_flow ''2025-06-04'' ''2025-06-01'' (Some 2) (Some 0)))
        (Some (min_stay_nights (pricing example_env)))
   \<and> toasts (run example_env (init_flow ''2025-06-04'' ''2025-06-01'' (Some 2) (Some 0))
        [ClickCheckAvailability])
     = [ToastError ''Check-out date must be after check-in date'']
   \<and> nights example_env (init_flow ''2025-06-01'' ''2025-06-02'' (Some 2) (Some 0)) = Some 1
   \<and> toasts (run example_env (init_flow ''2025-06-01'' ''2025-06-02'' (Some 2) (Some 0))
        [ClickCheckAvailability])
     = [ToastError ''Minimum stay is 2 nights'']
   \<and> calls (run example_env (init_flow ''2025-06-01'' ''2025-06-02'' (Some 2) (Some 0))
        [ClickCheckAvailability]) = []
   \<and> totalPrice example_env (run example_env (init_flow ''2025-06-01'' ''2025-06-02'' (Some 2) (Some 0))
        [ClickCheckAvailability]) = Some 137"
  by (intro conjI; code_simp)

text \<open>Outside the amended claim: dates that are present and that \<^verbatim>\<open>new Date\<close> does not
  read pass the three checks, since every comparison with \<^verbatim>\<open>NaN\<close> is false.\<close>

lemma date_submit_invalid_date:
  assumes "startDate s \<noteq> []" "endDate s \<noteq> []"
    and "date_getTime e (startDate s) = None \<or> date_getTime e (endDate s) = None"
  shows "handleDateSubmit e s = checkAvailability_mutate e s"
proof -
  from assms have "nights e s = None"
    by (auto simp add: nights_def split: option.splits)
  with assms show ?thesis
    by (auto simp add: handleDateSubmit_def)
qed

end
